theory Spec2Isabelle
  imports Complex_Main "HOL-Library.Sublist"
begin

section \<open>Conventions of the embedding\<close>

text \<open>
  The development embeds the scoring pipeline of the \<^verbatim>\<open>sentinel_brain\<close> package.
  Python \<^verbatim>\<open>int\<close> is \<^typ>\<open>int\<close>, Python \<^verbatim>\<open>float\<close> is \<^typ>\<open>real\<close> (rounding of
  binary floating point is not modelled), \<^verbatim>\<open>str\<close> is \<^typ>\<open>string\<close> (the hex strings
  and tags handled here are ASCII), \<^verbatim>\<open>x | None\<close> is \<^typ>\<open>'a option\<close>. A raised exception
  is the \<open>Inl\<close> branch of a sum. Field names of different classes that coincide in the
  source carry a short prefix naming their class.
\<close>

datatype error = RuntimeError | TypeError | ValueError

subsection \<open>Python string helpers\<close>

definition char_lower :: "char \<Rightarrow> char" where
  "char_lower c =
     (let n = (of_char c :: nat) in if 65 \<le> n \<and> n \<le> 90 then char_of (n + 32) else c)"

definition lower :: "string \<Rightarrow> string" where
  \<comment> \<open>\<^verbatim>\<open>str.lower()\<close> on ASCII text\<close>
  "lower s = map char_lower s"

definition selector_of :: "string \<Rightarrow> string" where
  \<comment> \<open>\<^verbatim>\<open>data[:10] if len(data) >= 10 else ""\<close>\<close>
  "selector_of d = (if length d \<ge> 10 then take 10 d else [])"

section \<open>Pending transactions (data/collectors/mempool\_listener.py)\<close>

record PendingTransaction =
  ptx_hash :: string
  ptx_from_address :: string
  ptx_to_address :: "string option"
  ptx_value :: int
  ptx_gas :: int
  ptx_gas_price :: int
  ptx_max_fee_per_gas :: "int option"
  ptx_max_priority_fee_per_gas :: "int option"
  ptx_input_data :: string
  ptx_nonce :: int
  ptx_chain_id :: "int option"

definition is_contract_interaction :: "PendingTransaction \<Rightarrow> bool" where
  "is_contract_interaction tx \<longleftrightarrow> ptx_to_address tx \<noteq> None \<and> length (ptx_input_data tx) > 2"

definition is_contract_creation :: "PendingTransaction \<Rightarrow> bool" where
  "is_contract_creation tx \<longleftrightarrow> ptx_to_address tx = None \<and> length (ptx_input_data tx) > 2"

definition is_simple_transfer :: "PendingTransaction \<Rightarrow> bool" where
  "is_simple_transfer tx \<longleftrightarrow> ptx_input_data tx = ''0x'' \<or> ptx_input_data tx = ''''"

definition selector :: "PendingTransaction \<Rightarrow> string option" where
  "selector tx =
     (if length (ptx_input_data tx) \<ge> 10 then Some (take 10 (ptx_input_data tx)) else None)"

section \<open>Feature records (features/extractors, features/aggregator.py)\<close>

record FlashLoanFeatures =
  has_flash_loan :: bool
  flash_loan_count :: int
  flash_loan_providers :: "string list"
  flash_loan_amounts :: "int list"
  total_borrowed :: int
  has_callback :: bool
  callback_selectors :: "string list"
  nested_flash_loans :: bool
  repayment_detected :: bool

record StateVarianceFeatures =
  total_storage_changes :: int
  unique_contracts_modified :: int
  unique_slots_modified :: int
  balance_slot_changes :: int
  large_value_changes :: int
  max_value_delta :: int
  avg_value_delta :: real
  variance_ratio :: real
  zero_to_nonzero :: int
  nonzero_to_zero :: int

record BytecodeFeatures =
  bytecode_length :: int
  bytecode_hash :: string
  is_contract :: bool
  is_proxy :: bool
  proxy_type :: "string option"
  contract_age_blocks :: int
  is_verified :: bool
  matches_known_exploit :: bool
  matched_exploit_id :: "string option"
  jaccard_similarity :: real
  has_selfdestruct :: bool
  has_delegatecall :: bool
  has_create2 :: bool
  unique_opcodes :: int

record OpcodeFeatures =
  total_calls :: int
  call_depth :: int
  delegatecall_count :: int
  staticcall_count :: int
  create_count :: int
  create2_count :: int
  selfdestruct_count :: int
  call_count :: int
  internal_calls :: int
  external_calls :: int
  unique_call_types :: int
  call_value_transfers :: int
  gas_forwarded_ratio :: real
  revert_count :: int
  opcode_frequency :: "(string \<times> int) list"

text \<open>
  The \<^verbatim>\<open>metadata\<close> dictionary is kept with its integer-valued entries only
  (\<^verbatim>\<open>gas_used\<close>, \<^verbatim>\<open>block_number\<close>, \<^verbatim>\<open>value\<close>, \<^verbatim>\<open>gas\<close> and the two counts); the only
  entry read by the code embedded here is \<^verbatim>\<open>gas_used\<close>.
\<close>

record AggregatedFeatures =
  flash_loan :: FlashLoanFeatures
  state_variance :: StateVarianceFeatures
  bytecode :: BytecodeFeatures
  opcode :: OpcodeFeatures
  metadata :: "string \<rightharpoonup> int"

definition b2f :: "bool \<Rightarrow> real" where
  \<comment> \<open>\<^verbatim>\<open>1.0 if b else 0.0\<close>\<close>
  "b2f b = (if b then 1 else 0)"

definition fl_to_vector :: "FlashLoanFeatures \<Rightarrow> real list" where
  "fl_to_vector f =
     [ b2f (has_flash_loan f),
       of_int (flash_loan_count f),
       of_nat (length (flash_loan_providers f)),
       (if total_borrowed f > 0 then of_int (total_borrowed f) / 10 ^ 18 else 0),
       b2f (has_callback f),
       of_nat (length (callback_selectors f)),
       b2f (nested_flash_loans f),
       b2f (repayment_detected f) ]"

definition sv_to_vector :: "StateVarianceFeatures \<Rightarrow> real list" where
  "sv_to_vector f =
     [ of_int (total_storage_changes f),
       of_int (unique_contracts_modified f),
       of_int (unique_slots_modified f),
       of_int (balance_slot_changes f),
       of_int (large_value_changes f),
       (if max_value_delta f > 0 then of_int (max_value_delta f) / 10 ^ 18 else 0),
       (if avg_value_delta f > 0 then avg_value_delta f / 10 ^ 18 else 0),
       variance_ratio f,
       of_int (zero_to_nonzero f),
       of_int (nonzero_to_zero f) ]"

definition bc_to_vector :: "BytecodeFeatures \<Rightarrow> real list" where
  "bc_to_vector f =
     [ of_int (bytecode_length f),
       b2f (is_contract f),
       b2f (is_proxy f),
       of_int (contract_age_blocks f),
       b2f (is_verified f),
       b2f (matches_known_exploit f),
       jaccard_similarity f,
       b2f (has_selfdestruct f),
       b2f (has_delegatecall f),
       b2f (has_create2 f),
       of_int (unique_opcodes f) ]"

definition op_to_vector :: "OpcodeFeatures \<Rightarrow> real list" where
  "op_to_vector f =
     [ of_int (total_calls f),
       of_int (call_depth f),
       of_int (delegatecall_count f),
       of_int (staticcall_count f),
       of_int (create_count f),
       of_int (create2_count f),
       of_int (selfdestruct_count f),
       of_int (call_count f),
       of_int (internal_calls f),
       of_int (external_calls f),
       of_int (unique_call_types f),
       of_int (call_value_transfers f),
       gas_forwarded_ratio f,
       of_int (revert_count f) ]"

definition to_vector :: "AggregatedFeatures \<Rightarrow> real list" where
  \<comment> \<open>the concatenation, with exact entries; the cast to 32-bit floats is accounted for
      where the detector reads the vector (\<open>sc_transform\<close>)\<close>
  "to_vector f =
     fl_to_vector (flash_loan f) @ sv_to_vector (state_variance f) @
     bc_to_vector (bytecode f) @ op_to_vector (opcode f)"

definition feature_names :: "string list" where
  "feature_names =
     [ ''fl_has_flash_loan'', ''fl_count'', ''fl_provider_count'', ''fl_total_borrowed'',
       ''fl_has_callback'', ''fl_callback_count'', ''fl_nested'', ''fl_repayment'',
       ''sv_storage_changes'', ''sv_contracts_modified'', ''sv_slots_modified'',
       ''sv_balance_changes'', ''sv_large_changes'', ''sv_max_delta'', ''sv_avg_delta'',
       ''sv_variance_ratio'', ''sv_zero_to_nonzero'', ''sv_nonzero_to_zero'',
       ''bc_length'', ''bc_is_contract'', ''bc_is_proxy'', ''bc_age_blocks'',
       ''bc_is_verified'', ''bc_matches_exploit'', ''bc_jaccard'', ''bc_has_selfdestruct'',
       ''bc_has_delegatecall'', ''bc_has_create2'', ''bc_unique_opcodes'',
       ''op_total_calls'', ''op_call_depth'', ''op_delegatecall'', ''op_staticcall'',
       ''op_create'', ''op_create2'', ''op_selfdestruct'', ''op_call'',
       ''op_internal_calls'', ''op_external_calls'', ''op_unique_types'',
       ''op_value_transfers'', ''op_gas_ratio'', ''op_revert_count'' ]"

definition sv_empty_features :: StateVarianceFeatures where
  "sv_empty_features =
     \<lparr> total_storage_changes = 0, unique_contracts_modified = 0, unique_slots_modified = 0,
       balance_slot_changes = 0, large_value_changes = 0, max_value_delta = 0,
       avg_value_delta = 0, variance_ratio = 0, zero_to_nonzero = 0, nonzero_to_zero = 0 \<rparr>"

definition bc_empty_features :: BytecodeFeatures where
  "bc_empty_features =
     \<lparr> bytecode_length = 0, bytecode_hash = [], is_contract = False, is_proxy = False,
       proxy_type = None, contract_age_blocks = 0, is_verified = False,
       matches_known_exploit = False, matched_exploit_id = None, jaccard_similarity = 0,
       has_selfdestruct = False, has_delegatecall = False, has_create2 = False,
       unique_opcodes = 0 \<rparr>"

definition bc_eoa_features :: BytecodeFeatures where
  "bc_eoa_features =
     \<lparr> bytecode_length = 0, bytecode_hash = [], is_contract = False, is_proxy = False,
       proxy_type = None, contract_age_blocks = 0, is_verified = False,
       matches_known_exploit = False, matched_exploit_id = None, jaccard_similarity = 0,
       has_selfdestruct = False, has_delegatecall = False, has_create2 = False,
       unique_opcodes = 0 \<rparr>"

definition op_empty_features :: OpcodeFeatures where
  "op_empty_features =
     \<lparr> total_calls = 0, call_depth = 0, delegatecall_count = 0, staticcall_count = 0,
       create_count = 0, create2_count = 0, selfdestruct_count = 0, call_count = 0,
       internal_calls = 0, external_calls = 0, unique_call_types = 0,
       call_value_transfers = 0, gas_forwarded_ratio = 0, revert_count = 0,
       opcode_frequency = [] \<rparr>"

text \<open>A transaction without recipient and with empty calldata.\<close>

definition tx_no_recipient :: PendingTransaction where
  "tx_no_recipient =
     \<lparr> ptx_hash = ''0xaa'', ptx_from_address = ''0x11'', ptx_to_address = None,
       ptx_value = 0, ptx_gas = 21000, ptx_gas_price = 1,
       ptx_max_fee_per_gas = None, ptx_max_priority_fee_per_gas = None,
       ptx_input_data = ''0x'', ptx_nonce = 0, ptx_chain_id = None \<rparr>"

section \<open>Executed traces (data/collectors/fork\_replayer.py)\<close>

record TraceLog =
  log_address :: string
  log_topics :: "string list"
  log_data :: string

datatype TraceCall =
  TraceCall (tc_call_type: string) (tc_from_address: string) (tc_to_address: string)
    (tc_value: int) (tc_gas: int) (tc_gas_used: int) (tc_input_data: string)
    (tc_output_data: string) (tc_depth: int) (tc_children: "TraceCall list")

record StorageChange =
  sc_address :: string
  sc_slot :: string
  sc_previous_value :: string
  sc_new_value :: string

record TransactionTrace =
  tr_tx_hash :: string
  tr_block_number :: int
  tr_from_address :: string
  tr_to_address :: "string option"
  tr_value :: int
  tr_gas_used :: int
  tr_gas_price :: int
  tr_input_data :: string
  tr_status :: bool
  tr_logs :: "TraceLog list"
  tr_call_trace :: "TraceCall option"
  tr_storage_changes :: "StorageChange list"
  tr_opcodes :: "(string \<times> int) list"
  tr_contracts_called :: "string list"
  tr_created_contracts :: "string list"
  tr_selfdestruct_contracts :: "string list"

section \<open>Flash-loan extractor (features/extractors/flash\_loan.py)\<close>

definition dict_of :: "('k \<times> 'v) list \<Rightarrow> ('k \<rightharpoonup> 'v)" where
  \<comment> \<open>a dict literal or comprehension: the last binding of a key wins\<close>
  "dict_of kvs = map_of (rev kvs)"

definition FLASH_LOAN_SIGNATURES :: "(string \<times> string) list" where
  "FLASH_LOAN_SIGNATURES =
     [ (''0x5cffe9de'', ''flashLoan(address,address,uint256,bytes)''),
       (''0xab9c4b5d'',
          ''flashLoan(address,address[],uint256[],uint256[],address,bytes,uint16)''),
       (''0xe0232b42'', ''flashLoan(address,uint256,bytes)''),
       (''0xc1a8a1f5'', ''flash(address,uint256,uint256,bytes)''),
       (''0x490e6cbc'', ''flash(address,address,uint256,uint256,bytes)''),
       (''0x9c3f1e90'', ''flashLoan(uint256,bytes)''),
       (''0xd9d98ce4'', ''flashBorrow(address,uint256)''),
       (''0x35ea6a75'', ''flashLoan(address,address,uint256,bytes)'') ]"

definition FLASH_LOAN_PROVIDERS :: "(string \<times> string) list" where
  "FLASH_LOAN_PROVIDERS =
     [ (''0x7d2768de32b0b80b7a3454c06bdac94a69ddc7a9'', ''aave_v2''),
       (''0x87870bca3f3fd6335c3f4ce8392d69350b4fa4e2'', ''aave_v3''),
       (''0x5c69bee701ef814a2b6a3edd4b1652cb9cc5aa6f'', ''uniswap_v2''),
       (''0x1f98431c8ad98523631ae4a59f267346ea31f984'', ''uniswap_v3''),
       (''0xba12222222228d8ba445958a75a0704d566bf2c8'', ''balancer''),
       (''0x6bdC1FCB2F13d1bA9D26ccEc3983d5D4bf318f57'', ''dydx''),
       (''0xc02aaa39b223fe8d0a0e5c4f27ead9083c756cc2'', ''weth'') ]"

definition CALLBACK_SIGNATURES :: "(string \<times> string) list" where
  "CALLBACK_SIGNATURES =
     [ (''0x23e30c8b'', ''onFlashLoan(address,address,uint256,uint256,bytes)''),
       (''0xee872558'', ''executeOperation(address[],uint256[],uint256[],address,bytes)''),
       (''0x920f5c84'', ''uniswapV3FlashCallback(uint256,uint256,bytes)''),
       (''0xfa461e33'', ''uniswapV3SwapCallback(int256,int256,bytes)''),
       (''0x10d1e85c'', ''pancakeV3SwapCallback(int256,int256,bytes)''),
       (''0x84800812'', ''receiveFlashLoan(address[],uint256[],uint256[],bytes)'') ]"

definition FLASH_LOAN_EVENT_TOPICS :: "(string \<times> string) list" where
  "FLASH_LOAN_EVENT_TOPICS =
     [ (''0x631042c832b07452973831137f2d73e395028b44b250dedc5abb0ee766e168ac'',
          ''aave_v2_flashloan''),
       (''0xefefaba5e921573100900a3ad9cf29f222d995fb3b6045797eaea7521f5de7a0'',
          ''aave_v3_flashloan''),
       (''0x0d7d75e01ab95780d3cd1c8ec0dd6c2ce19f3a05cdb8d28c4c21e1e1d2b0c92a'',
          ''balancer_flashloan''),
       (''0x76e3a82f8c87c7f3bd4c86ab5f5e2769efb99a8746b0a5c9b73d86db9d0af09e'',
          ''dydx_flashloan'') ]"

text \<open>The attributes set by \<^verbatim>\<open>FlashLoanExtractor.__init__\<close>.\<close>

definition flash_loan_sigs :: "string list" where
  "flash_loan_sigs = map fst FLASH_LOAN_SIGNATURES"

definition callback_sigs :: "string list" where
  "callback_sigs = map fst CALLBACK_SIGNATURES"

definition provider_addresses :: "string \<rightharpoonup> string" where
  "provider_addresses = dict_of (map (\<lambda>(k, v). (lower k, v)) FLASH_LOAN_PROVIDERS)"

definition flash_loan_event_topics :: "string \<rightharpoonup> string" where
  "flash_loan_event_topics = dict_of FLASH_LOAN_EVENT_TOPICS"

text \<open>
  The builtin \<^verbatim>\<open>int(s, 16)\<close> is a parameter \<open>int16\<close> of the extractor functions:
  \<open>int16 s = None\<close> stands for \<^verbatim>\<open>ValueError\<close>.
\<close>

definition extract_amount_from_input :: "(string \<Rightarrow> int option) \<Rightarrow> string \<Rightarrow> int" where
  "extract_amount_from_input int16 input_data =
     (if length input_data < 74 then 0
      else case int16 (take 64 (drop 10 input_data)) of Some n \<Rightarrow> n | None \<Rightarrow> 0)"

definition extract_amount_from_log_data :: "(string \<Rightarrow> int option) \<Rightarrow> string \<Rightarrow> int" where
  "extract_amount_from_log_data int16 data =
     (if length data < 66 then 0
      else let amount_hex = (if take 2 data = ''0x'' then take 64 (drop 2 data) else take 64 data)
           in case int16 amount_hex of Some n \<Rightarrow> n | None \<Rightarrow> 0)"

record FlashLoanCall =
  flc_selector :: string
  flc_to :: string
  flc_value :: int
  flc_depth :: int

text \<open>
  The four lists that \<^verbatim>\<open>_analyze_call_tree\<close> mutates. \<^verbatim>\<open>providers\<close> is a Python
  set: it is kept as a duplicate-free list, whose order stands for the unspecified
  iteration order of the set.
\<close>

record CallTreeAcc =
  flash_loan_calls :: "FlashLoanCall list"
  callback_calls :: "string list"
  providers :: "string list"
  amounts :: "int list"

fun analyze_call_tree ::
  "(string \<Rightarrow> int option) \<Rightarrow> TraceCall \<Rightarrow> int \<Rightarrow> CallTreeAcc \<Rightarrow> CallTreeAcc" where
  "analyze_call_tree int16 (TraceCall ct fr to v g gu inp out d children) depth acc =
     (let sel = selector_of inp;
          acc1 =
            (if sel \<in> set flash_loan_sigs then
               let a1 = acc\<lparr>flash_loan_calls := flash_loan_calls acc @
                          [\<lparr>flc_selector = sel, flc_to = to, flc_value = v, flc_depth = depth\<rparr>]\<rparr>;
                   a2 = (case provider_addresses (lower to) of
                           Some p \<Rightarrow> a1\<lparr>providers := List.insert p (providers a1)\<rparr>
                         | None \<Rightarrow> a1);
                   amount = extract_amount_from_input int16 inp
               in if amount > 0 then a2\<lparr>amounts := amounts a2 @ [amount]\<rparr> else a2
             else acc);
          acc2 =
            (if sel \<in> set callback_sigs
             then acc1\<lparr>callback_calls := callback_calls acc1 @ [sel]\<rparr> else acc1)
      in fold (\<lambda>child a. analyze_call_tree int16 child (depth + 1) a) children acc2)"

record LogFlashLoan =
  lfl_provider :: string
  lfl_amount :: int
  lfl_address :: string

fun detect_flash_loans_from_logs ::
  "(string \<Rightarrow> int option) \<Rightarrow> TraceLog list \<Rightarrow> LogFlashLoan list" where
  "detect_flash_loans_from_logs int16 [] = []"
| "detect_flash_loans_from_logs int16 (l # ls) =
     (case log_topics l of
        [] \<Rightarrow> detect_flash_loans_from_logs int16 ls
      | topic0 # _ \<Rightarrow>
          (case flash_loan_event_topics topic0 of
             Some provider \<Rightarrow>
               \<lparr>lfl_provider = provider,
                lfl_amount = extract_amount_from_log_data int16 (log_data l),
                lfl_address = log_address l\<rparr> # detect_flash_loans_from_logs int16 ls
           | None \<Rightarrow> detect_flash_loans_from_logs int16 ls))"

definition transfer_topic :: string where
  "transfer_topic = ''0xddf252ad1be2c89b69c2b068fc378daa952ba7f163c4a11628f55a4df523b3ef''"

definition detect_repayment_from_logs :: "TraceLog list \<Rightarrow> bool" where
  "detect_repayment_from_logs logs \<longleftrightarrow>
     length (filter (\<lambda>l. case log_topics l of [] \<Rightarrow> False | t # _ \<Rightarrow> t = transfer_topic) logs)
       \<ge> 2"

definition detect_nested_flash_loans :: "FlashLoanCall list \<Rightarrow> bool" where
  "detect_nested_flash_loans calls \<longleftrightarrow>
     (if length calls \<le> 1 then False else length (remdups (map flc_depth calls)) > 1)"

fun has_transfer_call :: "TraceCall \<Rightarrow> bool" where
  "has_transfer_call (TraceCall ct fr to v g gu inp out d children) \<longleftrightarrow>
     (if selector_of inp \<in> {''0xa9059cbb'', ''0x23b872dd''} then True
      else list_ex has_transfer_call children)"

definition detect_repayment :: "TransactionTrace \<Rightarrow> bool" where
  "detect_repayment trace \<longleftrightarrow>
     (case tr_call_trace trace of None \<Rightarrow> False | Some c \<Rightarrow> has_transfer_call c)"

text \<open>\<^verbatim>\<open>FlashLoanExtractor.extract\<close> (the bare name is a command of the prover).\<close>

definition fl_extract :: "(string \<Rightarrow> int option) \<Rightarrow> TransactionTrace \<Rightarrow> FlashLoanFeatures" where
  "fl_extract int16 trace =
     (let acc0 = \<lparr>flash_loan_calls = [], callback_calls = [], providers = [], amounts = []\<rparr>;
          acc1 = (case tr_call_trace trace of
                    Some c \<Rightarrow> analyze_call_tree int16 c 0 acc0
                  | None \<Rightarrow> acc0);
          log_flash_loans = detect_flash_loans_from_logs int16 (tr_logs trace);
          acc2 = fold (\<lambda>fl a.
                    let a' = a\<lparr>providers := List.insert (lfl_provider fl) (providers a)\<rparr>
                    in if lfl_amount fl > 0 then a'\<lparr>amounts := amounts a' @ [lfl_amount fl]\<rparr>
                       else a')
                  log_flash_loans acc1;
          input_selector = selector_of (tr_input_data trace);
          has_flash_loan_input = (input_selector \<in> set flash_loan_sigs);
          has_fl = (flash_loan_calls acc2 \<noteq> [] \<or> has_flash_loan_input \<or> log_flash_loans \<noteq> []);
          nested = detect_nested_flash_loans (flash_loan_calls acc2);
          repayment = (detect_repayment trace \<or> detect_repayment_from_logs (tr_logs trace))
      in \<lparr> has_flash_loan = has_fl,
           flash_loan_count =
             max (int (length (flash_loan_calls acc2))) (int (length log_flash_loans)),
           flash_loan_providers = providers acc2,
           flash_loan_amounts = amounts acc2,
           total_borrowed = sum_list (amounts acc2),
           has_callback = (callback_calls acc2 \<noteq> [] \<or> has_fl),
           callback_selectors = callback_calls acc2,
           nested_flash_loans = nested,
           repayment_detected = repayment \<rparr>)"

definition fl_extract_from_input :: "string \<Rightarrow> string option \<Rightarrow> FlashLoanFeatures" where
  "fl_extract_from_input input_data to_address =
     (let has_fl = (selector_of input_data \<in> set flash_loan_sigs);
          provider = (case to_address of
                        None \<Rightarrow> []
                      | Some a \<Rightarrow> if a = [] then []
                                  else (case provider_addresses (lower a) of
                                          Some p \<Rightarrow> p | None \<Rightarrow> []))
      in \<lparr> has_flash_loan = has_fl,
           flash_loan_count = (if has_fl then 1 else 0),
           flash_loan_providers = (if provider \<noteq> [] then [provider] else []),
           flash_loan_amounts = [],
           total_borrowed = 0,
           has_callback = False,
           callback_selectors = [],
           nested_flash_loans = False,
           repayment_detected = False \<rparr>)"

text \<open>
  An instance of the parameter \<open>int16\<close> for the examples: it reads a non-empty string of
  hexadecimal digits, on which it agrees with \<^verbatim>\<open>int(s, 16)\<close>, and rejects anything else.
\<close>

definition hex_digit :: "char \<Rightarrow> int option" where
  "hex_digit c =
     (let n = (of_char c :: nat) in
      if 48 \<le> n \<and> n \<le> 57 then Some (int n - 48)
      else if 97 \<le> n \<and> n \<le> 102 then Some (int n - 87)
      else if 65 \<le> n \<and> n \<le> 70 then Some (int n - 55)
      else None)"

fun hex_digits :: "int \<Rightarrow> string \<Rightarrow> int option" where
  "hex_digits acc [] = Some acc"
| "hex_digits acc (c # cs) =
     (case hex_digit c of None \<Rightarrow> None | Some d \<Rightarrow> hex_digits (16 * acc + d) cs)"

definition int16_plain :: "string \<Rightarrow> int option" where
  "int16_plain s = (if s = [] then None else hex_digits 0 s)"

text \<open>A trace whose outer calldata starts with a flash-loan selector; no call tree, no logs.\<close>

definition trace_flash_input :: TransactionTrace where
  "trace_flash_input =
     \<lparr> tr_tx_hash = ''0xb1'', tr_block_number = 18000000, tr_from_address = ''0x22'',
       tr_to_address = Some ''0x3333333333333333333333333333333333333333'',
       tr_value = 0, tr_gas_used = 300000, tr_gas_price = 1,
       tr_input_data = ''0x5cffe9de00'', tr_status = True, tr_logs = [],
       tr_call_trace = None, tr_storage_changes = [], tr_opcodes = [],
       tr_contracts_called = [], tr_created_contracts = [],
       tr_selfdestruct_contracts = [] \<rparr>"

section \<open>Heuristic filter (models/heuristics.py)\<close>

datatype FilterResult = F_SAFE | F_SUSPICIOUS | F_UNKNOWN

definition SAFE_SELECTORS :: "string list" where
  "SAFE_SELECTORS =
     [ ''0xa9059cbb'', ''0x23b872dd'', ''0x095ea7b3'', ''0x70a08231'', ''0x18160ddd'',
       ''0xdd62ed3e'', ''0x313ce567'', ''0x06fdde03'', ''0x95d89b41'', ''0x40c10f19'',
       ''0x42842e0e'', ''0xb88d4fde'', ''0x6352211e'', ''0xe985e9c5'', ''0xa22cb465'' ]"

definition SUSPICIOUS_SELECTORS :: "string list" where
  "SUSPICIOUS_SELECTORS =
     [ ''0x5cffe9de'', ''0xab9c4b5d'', ''0xc1a8a1f5'', ''0x490e6cbc'', ''0x9c3f1e90'',
       ''0x022c0d9f'', ''0x128acb08'', ''0x7c025200'', ''0x12aa3caf'', ''0xe449022e'',
       ''0x0502b1c5'', ''0xb6f9de95'', ''0x791ac947'' ]"

definition WHITELISTED_CONTRACTS :: "string list" where
  "WHITELISTED_CONTRACTS =
     [ ''0xc02aaa39b223fe8d0a0e5c4f27ead9083c756cc2'',
       ''0xa0b86991c6218b36c1d19d4a2e9eb0ce3606eb48'',
       ''0xdac17f958d2ee523a2206206994597c13d831ec7'',
       ''0x6b175474e89094c44da98b954eedeac495271d0f'',
       ''0x7d2768de32b0b80b7a3454c06bdac94a69ddc7a9'',
       ''0x87870bca3f3fd6335c3f4ce8392d69350b4fa4e2'',
       ''0x7a250d5630b4cf539739df2c5dacb4c659f2488d'',
       ''0xe592427a0aece92de3edee1f18e0157c05861564'',
       ''0x68b3465833fb72a70ecdf485e0e4c7bd8665fc45'',
       ''0xba12222222228d8ba445958a75a0704d566bf2c8'',
       ''0xdef1c0ded9bec7f1a1670819833240f027b25eff'',
       ''0x1111111254eeb25477b68fb85ed929f73a960582'' ]"

record HeuristicResult =
  hr_result :: FilterResult
  hr_confidence :: real
  hr_reasons :: "string list"
  hr_should_analyze :: bool
  hr_risk_indicators :: "string list"

text \<open>The selector and contract sets of the filter are kept as lists read through \<open>set\<close>.\<close>

record HeuristicFilter =
  safe_selectors :: "string list"
  suspicious_selectors :: "string list"
  whitelisted_contracts :: "string list"
  max_safe_gas :: int
  min_suspicious_value :: int

definition HeuristicFilter_init :: HeuristicFilter where
  \<comment> \<open>\<^verbatim>\<open>HeuristicFilter()\<close> with every argument at its default\<close>
  "HeuristicFilter_init =
     \<lparr> safe_selectors = SAFE_SELECTORS,
       suspicious_selectors = SUSPICIOUS_SELECTORS,
       whitelisted_contracts = map lower WHITELISTED_CONTRACTS,
       max_safe_gas = 100000,
       min_suspicious_value = 10 ^ 18 \<rparr>"

definition append_if :: "bool \<Rightarrow> 'a \<Rightarrow> 'a list \<Rightarrow> 'a list" where
  \<comment> \<open>\<^verbatim>\<open>if c: xs.append(x)\<close>\<close>
  "append_if c x xs = (if c then xs @ [x] else xs)"

text \<open>\<^verbatim>\<open>HeuristicFilter.filter\<close>, on a pending transaction.\<close>

definition hf_filter :: "HeuristicFilter \<Rightarrow> PendingTransaction \<Rightarrow> HeuristicResult" where
  "hf_filter hf tx =
     (if is_simple_transfer tx then
        \<lparr> hr_result = F_SAFE, hr_confidence = 99 / 100, hr_reasons = [''simple_eth_transfer''],
          hr_should_analyze = False, hr_risk_indicators = [] \<rparr>
      else
        let r1 = append_if (ptx_gas tx < max_safe_gas hf \<and> ptx_value tx = 0)
                   ''low_gas_no_value'' [];
            r2 = append_if
                   (case ptx_to_address tx of
                      None \<Rightarrow> False
                    | Some a \<Rightarrow> a \<noteq> [] \<and> lower a \<in> set (whitelisted_contracts hf))
                   ''whitelisted_contract'' r1;
            sel = selector tx;
            is_safe_sel = (case sel of None \<Rightarrow> False
                           | Some s \<Rightarrow> s \<noteq> [] \<and> s \<in> set (safe_selectors hf));
            is_susp_sel = (case sel of None \<Rightarrow> False
                           | Some s \<Rightarrow> s \<noteq> [] \<and> s \<notin> set (safe_selectors hf) \<and>
                                      s \<in> set (suspicious_selectors hf));
            reasons = append_if is_safe_sel ''safe_selector'' r2;
            i1 = append_if is_susp_sel ''suspicious_selector'' [];
            i2 = append_if (is_contract_creation tx) ''contract_creation'' i1;
            i3 = append_if (ptx_value tx \<ge> min_suspicious_value hf) ''large_value_transfer'' i2;
            risk_indicators = append_if (ptx_gas tx > 1000000) ''high_gas_limit'' i3
        in if length reasons \<ge> 2 \<and> risk_indicators = [] then
             \<lparr> hr_result = F_SAFE, hr_confidence = 9 / 10, hr_reasons = reasons,
               hr_should_analyze = False, hr_risk_indicators = [] \<rparr>
           else if length risk_indicators \<ge> 2 then
             \<lparr> hr_result = F_SUSPICIOUS, hr_confidence = 7 / 10, hr_reasons = reasons,
               hr_should_analyze = True, hr_risk_indicators = risk_indicators \<rparr>
           else
             \<lparr> hr_result = F_UNKNOWN, hr_confidence = 1 / 2, hr_reasons = reasons,
               hr_should_analyze = True, hr_risk_indicators = risk_indicators \<rparr>)"

text \<open>
  \<^verbatim>\<open>HeuristicFilter.filter_with_features\<close>. It reads no attribute of the filter. The
  indicators appended before the known-exploit test are \<open>indicators_before_exploit\<close>.
\<close>

definition indicators_before_exploit :: "AggregatedFeatures \<Rightarrow> string list" where
  "indicators_before_exploit features =
     (let has_fl = has_flash_loan (flash_loan features);
          has_large_changes = (large_value_changes (state_variance features) > 3);
          has_many_transfers = (total_storage_changes (state_variance features) > 10);
          has_high_value = (max_value_delta (state_variance features) > 10 ^ 22);
          i4 = (if has_fl then
                  let i1 = [''flash_loan_detected''];
                      i2 = append_if (nested_flash_loans (flash_loan features))
                             ''nested_flash_loans'' i1;
                      i3 = append_if (total_borrowed (flash_loan features) > 10 ^ 24)
                             ''large_flash_loan'' i2
                  in append_if (has_large_changes \<or> has_many_transfers \<or> has_high_value)
                       ''flash_loan_with_complex_activity'' i3
                else []);
          i5 = append_if (variance_ratio (state_variance features) > 1 / 2)
                 ''high_state_variance'' i4;
          i6 = append_if has_large_changes ''multiple_large_changes'' i5
      in append_if has_high_value ''extreme_value_movement'' i6)"

definition filter_with_features :: "AggregatedFeatures \<Rightarrow> HeuristicResult" where
  "filter_with_features features =
     (let i7 = indicators_before_exploit features
      in if matches_known_exploit (bytecode features) then
           \<lparr> hr_result = F_SUSPICIOUS, hr_confidence = 95 / 100, hr_reasons = [],
             hr_should_analyze = True, hr_risk_indicators = i7 @ [''matches_known_exploit''] \<rparr>
         else
           let i8 = append_if (jaccard_similarity (bytecode features) > 7 / 10)
                      ''high_bytecode_similarity'' i7;
               i9 = append_if (contract_age_blocks (bytecode features) < 100)
                      ''new_contract'' i8;
               i10 = append_if (has_selfdestruct (bytecode features)) ''selfdestruct_opcode'' i9;
               i11 = append_if (delegatecall_count (opcode features) > 0)
                       ''uses_delegatecall'' i10;
               i12 = append_if (create2_count (opcode features) > 0) ''uses_create2'' i11;
               i13 = append_if (call_depth (opcode features) > 10) ''deep_call_stack'' i12;
               risk_indicators = append_if (total_calls (opcode features) > 50)
                                   ''high_call_count'' i13
           in if length risk_indicators = 0 then
                \<lparr> hr_result = F_SAFE, hr_confidence = 8 / 10,
                  hr_reasons = [''no_risk_indicators''], hr_should_analyze = False,
                  hr_risk_indicators = [] \<rparr>
              else if length risk_indicators \<ge> 3 then
                \<lparr> hr_result = F_SUSPICIOUS,
                  hr_confidence = min (1 / 2 + of_nat (length risk_indicators) * (1 / 10))
                                      (95 / 100),
                  hr_reasons = [], hr_should_analyze = True,
                  hr_risk_indicators = risk_indicators \<rparr>
              else
                \<lparr> hr_result = F_UNKNOWN, hr_confidence = 1 / 2, hr_reasons = [],
                  hr_should_analyze = True, hr_risk_indicators = risk_indicators \<rparr>)"

text \<open>The tags of \<^verbatim>\<open>filter_with_features\<close> in the order of the checks that append them.\<close>

definition check_order :: "string list" where
  "check_order =
     [ ''flash_loan_detected'', ''nested_flash_loans'', ''large_flash_loan'',
       ''flash_loan_with_complex_activity'', ''high_state_variance'',
       ''multiple_large_changes'', ''extreme_value_movement'', ''matches_known_exploit'',
       ''high_bytecode_similarity'', ''new_contract'', ''selfdestruct_opcode'',
       ''uses_delegatecall'', ''uses_create2'', ''deep_call_stack'', ''high_call_count'' ]"

section \<open>Feature aggregator (features/aggregator.py)\<close>

text \<open>
  The state-variance, opcode and bytecode extractors are embedded up to their dispatch:
  their early returns (the empty records) are written out, and the computation they run on
  non-empty input is a parameter, as is the builtin \<^verbatim>\<open>int(s, 16)\<close>. These computations
  may raise, and nothing up to the entry points of the signal engine catches the exception:
  each parameter returns either a record or the exception.

  The first step of the bytecode extractor on non-empty code is written out. It hashes
  \<^verbatim>\<open>bytes.fromhex(clean)\<close>, which raises \<^verbatim>\<open>ValueError\<close> when \<^verbatim>\<open>clean\<close> holds a
  character that is neither a hexadecimal digit nor ASCII whitespace, or an odd number of
  hexadecimal digits. What the extractor does on the remaining codes (where
  \<^verbatim>\<open>int(opcode, 16)\<close> may still raise) is the parameter \<open>ei_bc_nonempty\<close>.
\<close>

record ExtractorInternals =
  ei_int16 :: "string \<Rightarrow> int option"
  ei_sv_nonempty :: "TransactionTrace \<Rightarrow> error + StateVarianceFeatures"
  ei_op_nonempty :: "TransactionTrace \<Rightarrow> error + OpcodeFeatures"
  ei_bc_nonempty :: "string \<Rightarrow> error + BytecodeFeatures"

definition sv_extract ::
  "ExtractorInternals \<Rightarrow> TransactionTrace \<Rightarrow> error + StateVarianceFeatures" where
  \<comment> \<open>\<^verbatim>\<open>StateVarianceExtractor.extract\<close>\<close>
  "sv_extract I trace =
     (if tr_storage_changes trace = [] then
        (if tr_logs trace \<noteq> [] then ei_sv_nonempty I trace else Inr sv_empty_features)
      else ei_sv_nonempty I trace)"

definition op_extract :: "ExtractorInternals \<Rightarrow> TransactionTrace \<Rightarrow> error + OpcodeFeatures" where
  \<comment> \<open>\<^verbatim>\<open>OpcodeExtractor.extract\<close>\<close>
  "op_extract I trace =
     (if tr_call_trace trace = None then
        (if tr_opcodes trace \<noteq> [] then ei_op_nonempty I trace
         else if tr_logs trace \<noteq> [] then ei_op_nonempty I trace
         else Inr op_empty_features)
      else ei_op_nonempty I trace)"

definition strip_0x :: "string \<Rightarrow> string" where
  \<comment> \<open>\<^verbatim>\<open>bytecode[2:] if bytecode.startswith("0x") else bytecode\<close>\<close>
  "strip_0x s = (if take 2 s = ''0x'' then drop 2 s else s)"

definition ascii_whitespace :: "char \<Rightarrow> bool" where
  \<comment> \<open>space, and the control characters from tab to carriage return\<close>
  "ascii_whitespace c \<longleftrightarrow> (let n = (of_char c :: nat) in n = 32 \<or> (9 \<le> n \<and> n \<le> 13))"

definition fromhex_rejects :: "string \<Rightarrow> bool" where
  \<comment> \<open>inputs on which \<^verbatim>\<open>bytes.fromhex\<close> raises \<^verbatim>\<open>ValueError\<close> whatever their layout\<close>
  "fromhex_rejects s \<longleftrightarrow>
     list_ex (\<lambda>c. hex_digit c = None \<and> \<not> ascii_whitespace c) s \<or>
     odd (length (filter (\<lambda>c. hex_digit c \<noteq> None) s))"

definition bc_extract_from_bytecode ::
  "ExtractorInternals \<Rightarrow> string \<Rightarrow> error + BytecodeFeatures" where
  \<comment> \<open>\<^verbatim>\<open>BytecodeExtractor.extract_from_bytecode\<close>; the second branch is the call of
      \<^verbatim>\<open>_hash_bytecode\<close>, its first statement after the early return\<close>
  "bc_extract_from_bytecode I code =
     (if code = [] \<or> code = ''0x'' then Inr bc_eoa_features
      else if fromhex_rejects (strip_0x code) then Inl ValueError
      else ei_bc_nonempty I code)"

text \<open>
  \<^verbatim>\<open>FeatureAggregator.extract_from_trace\<close> as both engines call it, without a chain
  handle (\<^verbatim>\<open>w3=None\<close>): the bytecode record is empty unless the trace is a contract
  creation. The extractors run in the order of the source and the first exception ends
  the call.
\<close>

definition extract_from_trace ::
  "ExtractorInternals \<Rightarrow> TransactionTrace \<Rightarrow> error + AggregatedFeatures" where
  "extract_from_trace I trace =
     (let flash_loan_features = fl_extract (ei_int16 I) trace
      in case sv_extract I trace of
           Inl e \<Rightarrow> Inl e
         | Inr state_features \<Rightarrow>
             (case op_extract I trace of
                Inl e \<Rightarrow> Inl e
              | Inr opcode_features \<Rightarrow>
                  (case (case tr_to_address trace of
                           None \<Rightarrow> bc_extract_from_bytecode I (tr_input_data trace)
                         | Some a \<Rightarrow> Inr bc_empty_features) of
                     Inl e \<Rightarrow> Inl e
                   | Inr bytecode_features \<Rightarrow>
                       Inr \<lparr> flash_loan = flash_loan_features,
                             state_variance = state_features,
                             bytecode = bytecode_features,
                             opcode = opcode_features,
                             metadata = dict_of
                               [ (''block_number'', tr_block_number trace),
                                 (''value'', tr_value trace),
                                 (''gas_used'', tr_gas_used trace),
                                 (''contracts_called'',
                                    int (length (tr_contracts_called trace))),
                                 (''created_contracts'',
                                    int (length (tr_created_contracts trace))) ] \<rparr>)))"

definition extract_from_pending ::
  "ExtractorInternals \<Rightarrow> PendingTransaction \<Rightarrow> error + AggregatedFeatures" where
  "extract_from_pending I tx =
     (case (if is_contract_creation tx then bc_extract_from_bytecode I (ptx_input_data tx)
            else Inr bc_empty_features) of
        Inl e \<Rightarrow> Inl e
      | Inr bytecode_features \<Rightarrow>
          Inr \<lparr> flash_loan = fl_extract_from_input (ptx_input_data tx) (ptx_to_address tx),
                state_variance =
                  \<lparr> total_storage_changes = 0, unique_contracts_modified = 0,
                    unique_slots_modified = 0, balance_slot_changes = 0,
                    large_value_changes = 0, max_value_delta = 0, avg_value_delta = 0,
                    variance_ratio = 0, zero_to_nonzero = 0, nonzero_to_zero = 0 \<rparr>,
                bytecode = bytecode_features,
                opcode =
                  \<lparr> total_calls = 0, call_depth = 0, delegatecall_count = 0,
                    staticcall_count = 0,
                    create_count = (if is_contract_creation tx then 1 else 0),
                    create2_count = 0, selfdestruct_count = 0,
                    call_count = (if is_contract_interaction tx then 1 else 0),
                    internal_calls = 0,
                    external_calls = (if is_contract_interaction tx then 1 else 0),
                    unique_call_types = 1,
                    call_value_transfers = (if ptx_value tx > 0 then 1 else 0),
                    gas_forwarded_ratio = 0, revert_count = 0, opcode_frequency = [] \<rparr>,
                metadata = dict_of [ (''value'', ptx_value tx), (''gas'', ptx_gas tx) ] \<rparr>)"

text \<open>
  Parameters for the examples: the state-variance and opcode computations yield the empty
  record, the bytecode computation the record of a contract with no further finding.
\<close>

definition sv_nonempty_trivial :: "TransactionTrace \<Rightarrow> error + StateVarianceFeatures" where
  "sv_nonempty_trivial trace = Inr sv_empty_features"

definition op_nonempty_trivial :: "TransactionTrace \<Rightarrow> error + OpcodeFeatures" where
  "op_nonempty_trivial trace = Inr op_empty_features"

definition bc_nonempty_trivial :: "string \<Rightarrow> error + BytecodeFeatures" where
  "bc_nonempty_trivial code =
     Inr (bc_eoa_features \<lparr> bytecode_length := int (length code) div 2, is_contract := True \<rparr>)"

definition internals_trivial :: ExtractorInternals where
  "internals_trivial =
     \<lparr> ei_int16 = int16_plain,
       ei_sv_nonempty = sv_nonempty_trivial,
       ei_op_nonempty = op_nonempty_trivial,
       ei_bc_nonempty = bc_nonempty_trivial \<rparr>"

section \<open>Anomaly detector (models/isolation\_forest.py)\<close>

text \<open>
  The fitted scikit-learn objects of the artifact are inputs of the model: the scaler with
  its \<^verbatim>\<open>transform\<close> and its \<^verbatim>\<open>mean_\<close> and \<^verbatim>\<open>scale_\<close> arrays, the forest with its
  \<^verbatim>\<open>decision_function\<close>. Both calls validate their input and raise \<^verbatim>\<open>ValueError\<close>
  when they reject it; \<open>None\<close> is that exception. The vector handed to \<^verbatim>\<open>transform\<close> is
  the feature vector after its cast to 32-bit floats, which turns an entry beyond the range
  of that format (a 256-bit amount over \<open>10^18\<close>, say) into an infinity that
  \<^verbatim>\<open>transform\<close> rejects. The cast is part of the parameter \<open>sc_transform\<close>, which reads
  the exact vector.
\<close>

record Scaler =
  sc_transform :: "real list \<Rightarrow> real list option"
  sc_mean :: "real list"
  sc_scale :: "real list"

record DetectionResult =
  dr_anomaly_score :: real
  dr_is_anomaly :: bool
  dr_confidence :: real
  dr_feature_contributions :: "(string \<times> real) list"
  dr_threshold :: real

record IsolationForestDetector =
  contamination :: real
  n_estimators :: int
  max_samples :: "int option"
  det_threshold :: real
  random_state :: int
  model :: "(real list \<Rightarrow> real option) option"
  scaler :: "Scaler option"
  det_feature_names :: "string list"
  is_trained :: bool

definition IsolationForestDetector_init :: IsolationForestDetector where
  \<comment> \<open>the constructor with every argument at its default; \<open>max_samples = None\<close> is "auto"\<close>
  "IsolationForestDetector_init =
     \<lparr> contamination = 1 / 10, n_estimators = 100, max_samples = None,
       det_threshold = 65 / 100, random_state = 42, model = None, scaler = None,
       det_feature_names = [], is_trained = False \<rparr>"

record ModelData =
  md_model :: "real list \<Rightarrow> real option"
  md_scaler :: Scaler
  md_feature_names :: "string list"
  md_threshold :: real
  md_contamination :: real
  md_n_estimators :: int

definition IsolationForestDetector_load :: "ModelData \<Rightarrow> IsolationForestDetector" where
  \<comment> \<open>\<^verbatim>\<open>IsolationForestDetector.load\<close> once the file has been read\<close>
  "IsolationForestDetector_load md =
     IsolationForestDetector_init
       \<lparr> contamination := md_contamination md, n_estimators := md_n_estimators md,
         det_threshold := md_threshold md, model := Some (md_model md),
         scaler := Some (md_scaler md), det_feature_names := md_feature_names md,
         is_trained := True \<rparr>"

definition normalize_score :: "real \<Rightarrow> real" where
  "normalize_score raw_score = (let normalized = 1 / 2 - raw_score / 2 in max 0 (min 1 normalized))"

definition calculate_confidence :: "IsolationForestDetector \<Rightarrow> real \<Rightarrow> real" where
  "calculate_confidence d anomaly_score =
     (let distance_from_threshold = \<bar>anomaly_score - det_threshold d\<bar>
      in min (1 / 2 + distance_from_threshold) 1)"

fun dict_update :: "'k \<Rightarrow> 'v \<Rightarrow> ('k \<times> 'v) list \<Rightarrow> ('k \<times> 'v) list" where
  \<comment> \<open>\<^verbatim>\<open>d[k] = v\<close> on a dict kept in insertion order\<close>
  "dict_update k v [] = [(k, v)]"
| "dict_update k v (p # ps) = (if fst p = k then (k, v) # ps else p # dict_update k v ps)"

definition calculate_feature_contributions ::
  "IsolationForestDetector \<Rightarrow> real list \<Rightarrow> (string \<times> real) list" where
  "calculate_feature_contributions d x =
     (case (model d, scaler d) of
        (Some m, Some sc) \<Rightarrow>
          let contributions =
                fold (\<lambda>(name, val, mn, s). dict_update name \<bar>val\<bar>)
                  (zip (det_feature_names d) (zip x (zip (sc_mean sc) (sc_scale sc)))) [];
              total = sum_list (map snd contributions);
              contributions' =
                (if total > 0 then map (\<lambda>(k, v). (k, v / total)) contributions
                 else contributions)
          in take 10 (sort_key (\<lambda>(k, v). - v) contributions')
      | _ \<Rightarrow> [])"

definition predict :: "IsolationForestDetector \<Rightarrow> AggregatedFeatures \<Rightarrow> error + DetectionResult" where
  "predict d features =
     (if \<not> is_trained d then Inl RuntimeError
      else case (model d, scaler d) of
        (Some m, Some sc) \<Rightarrow>
          let X = to_vector features
          in (case sc_transform sc X of
                None \<Rightarrow> Inl ValueError
              | Some X_scaled \<Rightarrow>
                  (case m X_scaled of
                     None \<Rightarrow> Inl ValueError
                   | Some raw_score \<Rightarrow>
                       let anomaly_score = normalize_score raw_score;
                           is_anom = (anomaly_score \<ge> det_threshold d);
                           conf = calculate_confidence d anomaly_score;
                           contributions = calculate_feature_contributions d X_scaled
                       in Inr \<lparr> dr_anomaly_score = anomaly_score, dr_is_anomaly = is_anom,
                                dr_confidence = conf,
                                dr_feature_contributions = contributions,
                                dr_threshold = det_threshold d \<rparr>))
      | _ \<Rightarrow> Inl RuntimeError)"

text \<open>
  An artifact for the examples: a scaler that accepts vectors whose entries are below
  \<open>2^127\<close> in absolute value (they survive the cast to 32-bit floats) and leaves them
  unchanged, and the constant decision value \<open>-0.4\<close>.
\<close>

definition transform_in_range :: "real list \<Rightarrow> real list option" where
  "transform_in_range v = (if list_all (\<lambda>x. \<bar>x\<bar> < 2 ^ 127) v then Some v else None)"

definition scaler_identity :: Scaler where
  "scaler_identity =
     \<lparr> sc_transform = transform_in_range, sc_mean = replicate 43 0,
       sc_scale = replicate 43 1 \<rparr>"

definition decision_low :: "real list \<Rightarrow> real option" where
  "decision_low x = Some (- (2 / 5))"

definition model_data_low :: ModelData where
  "model_data_low =
     \<lparr> md_model = decision_low, md_scaler = scaler_identity,
       md_feature_names = feature_names, md_threshold = 65 / 100,
       md_contamination = 1 / 10, md_n_estimators = 100 \<rparr>"

definition detector_low :: IsolationForestDetector where
  "detector_low = IsolationForestDetector_load model_data_low"

section \<open>Indicator list of the inference engine (inference/engine.py)\<close>

text \<open>
  \<^verbatim>\<open>InferenceEngine.analyze\<close> merges the indicators of both heuristic passes with
  \<^verbatim>\<open>list(set(a + b))\<close>. The iteration order of a Python set of strings is fixed by the
  hash values of its elements, not by the order of insertion; it is the parameter
  \<open>set_order\<close>, of which only \<open>is_set_listing\<close> is known.
\<close>

definition is_set_listing :: "('a list \<Rightarrow> 'a list) \<Rightarrow> bool" where
  "is_set_listing set_order \<longleftrightarrow>
     (\<forall>xs. distinct (set_order xs) \<and> set (set_order xs) = set xs)"

datatype SimOutcome =
  NoSimulation | Simulated "TransactionTrace option" | SimTimeout | SimError

definition all_indicators ::
  "(string list \<Rightarrow> string list) \<Rightarrow> HeuristicResult \<Rightarrow> HeuristicResult \<Rightarrow> bool \<Rightarrow> bool
     \<Rightarrow> string list" where
  "all_indicators set_order heuristic_result heuristic_with_features
       simulation_timeout simulation_error =
     append_if simulation_error ''simulation_error''
       (append_if simulation_timeout ''simulation_timeout''
          (set_order (hr_risk_indicators heuristic_result @
                      hr_risk_indicators heuristic_with_features)))"

text \<open>
  The \<^verbatim>\<open>risk_indicators\<close> field of the result of \<^verbatim>\<open>InferenceEngine.analyze\<close>, or the
  exception that ends the call before a result is built. The outcome of the simulation
  step is an input. An exception of \<^verbatim>\<open>extract_from_trace\<close> on the simulated trace is
  caught with the other simulation errors; one of \<^verbatim>\<open>extract_from_pending\<close> or of the
  detector is not.
\<close>

definition engine_risk_indicators ::
  "(string list \<Rightarrow> string list) \<Rightarrow> HeuristicFilter \<Rightarrow> ExtractorInternals
     \<Rightarrow> IsolationForestDetector option \<Rightarrow> SimOutcome \<Rightarrow> PendingTransaction
     \<Rightarrow> error + string list" where
  "engine_risk_indicators set_order hf I detector sim tx =
     (let heuristic_result = hf_filter hf tx
      in if hr_result heuristic_result = F_SAFE \<and> \<not> hr_should_analyze heuristic_result
         then Inr []
         else
           case extract_from_pending I tx of
             Inl e \<Rightarrow> Inl e
           | Inr pending_features \<Rightarrow>
               let (features, simulation_timeout, simulation_error) =
                     (case sim of
                        Simulated (Some trace) \<Rightarrow>
                          (case extract_from_trace I trace of
                             Inr f \<Rightarrow> (f, False, False)
                           | Inl e \<Rightarrow> (pending_features, False, True))
                      | SimTimeout \<Rightarrow> (pending_features, True, False)
                      | SimError \<Rightarrow> (pending_features, False, True)
                      | _ \<Rightarrow> (pending_features, False, False));
                   heuristic_with_features = filter_with_features features
               in case (case detector of
                          None \<Rightarrow> Inr None
                        | Some d \<Rightarrow> (case predict d features of
                                       Inl e \<Rightarrow> Inl e | Inr r \<Rightarrow> Inr (Some r))) of
                    Inl e \<Rightarrow> Inl e
                  | Inr ml_result \<Rightarrow>
                      Inr (all_indicators set_order heuristic_result heuristic_with_features
                             simulation_timeout simulation_error))"

text \<open>
  \<^verbatim>\<open>InferenceEngine.analyze_trace\<close> and both methods of the signal engine pass the list of
  \<^verbatim>\<open>filter_with_features\<close> on unchanged, once the features are extracted.
\<close>

definition trace_risk_indicators ::
  "ExtractorInternals \<Rightarrow> TransactionTrace \<Rightarrow> error + string list" where
  "trace_risk_indicators I trace =
     (case extract_from_trace I trace of
        Inl e \<Rightarrow> Inl e
      | Inr features \<Rightarrow> Inr (hr_risk_indicators (filter_with_features features)))"

text \<open>A pending flash-loan call to an unknown contract with a gas limit of three million.\<close>

definition tx_flash_pending :: PendingTransaction where
  "tx_flash_pending =
     \<lparr> ptx_hash = ''0xbb'', ptx_from_address = ''0x22'',
       ptx_to_address = Some ''0x3333333333333333333333333333333333333333'',
       ptx_value = 0, ptx_gas = 3000000, ptx_gas_price = 100000000000,
       ptx_max_fee_per_gas = None, ptx_max_priority_fee_per_gas = None,
       ptx_input_data = ''0x5cffe9de00'', ptx_nonce = 1, ptx_chain_id = None \<rparr>"

text \<open>A feature record that is empty except for the known-exploit flag and an old contract.\<close>

definition features_exploit_only :: AggregatedFeatures where
  "features_exploit_only =
     \<lparr> flash_loan =
         \<lparr> has_flash_loan = False, flash_loan_count = 0, flash_loan_providers = [],
           flash_loan_amounts = [], total_borrowed = 0, has_callback = False,
           callback_selectors = [], nested_flash_loans = False, repayment_detected = False \<rparr>,
       state_variance = sv_empty_features,
       bytecode = bc_empty_features
         \<lparr> is_contract := True, contract_age_blocks := 5000, matches_known_exploit := True,
           matched_exploit_id := Some ''euler_attacker'', jaccard_similarity := 1 \<rparr>,
       opcode = op_empty_features,
       metadata = Map.empty \<rparr>"

text \<open>One admissible iteration order of a set: first occurrences, last to first.\<close>

definition set_order_reversed :: "string list \<Rightarrow> string list" where
  "set_order_reversed xs = rev (remdups xs)"

text \<open>The tags of \<^verbatim>\<open>HeuristicFilter.filter\<close> in the order of the checks that append them.\<close>

definition pending_check_order :: "string list" where
  "pending_check_order =
     [ ''suspicious_selector'', ''contract_creation'', ''large_value_transfer'',
       ''high_gas_limit'' ]"

section \<open>Protocol filter (models/protocol\_filter.py)\<close>

datatype Protocol =
  P_UNKNOWN | UNISWAP_V2 | UNISWAP_V3 | SUSHISWAP | CURVE | BALANCER | AAVE_V2 | AAVE_V3
  | COMPOUND | MAKER | ONE_INCH | PARASWAP | COWSWAP | STARGATE | HOP | ACROSS | YEARN
  | CONVEX | LIDO

fun protocol_value :: "Protocol \<Rightarrow> string" where
  "protocol_value P_UNKNOWN = ''unknown''"
| "protocol_value UNISWAP_V2 = ''uniswap_v2''"
| "protocol_value UNISWAP_V3 = ''uniswap_v3''"
| "protocol_value SUSHISWAP = ''sushiswap''"
| "protocol_value CURVE = ''curve''"
| "protocol_value BALANCER = ''balancer''"
| "protocol_value AAVE_V2 = ''aave_v2''"
| "protocol_value AAVE_V3 = ''aave_v3''"
| "protocol_value COMPOUND = ''compound''"
| "protocol_value MAKER = ''maker''"
| "protocol_value ONE_INCH = ''1inch''"
| "protocol_value PARASWAP = ''paraswap''"
| "protocol_value COWSWAP = ''cowswap''"
| "protocol_value STARGATE = ''stargate''"
| "protocol_value HOP = ''hop''"
| "protocol_value ACROSS = ''across''"
| "protocol_value YEARN = ''yearn''"
| "protocol_value CONVEX = ''convex''"
| "protocol_value LIDO = ''lido''"

datatype OperationType =
  O_UNKNOWN | SWAP | ADD_LIQUIDITY | REMOVE_LIQUIDITY | DEPOSIT | WITHDRAW | BORROW | REPAY
  | LIQUIDATE | FLASH_LOAN_ARBITRAGE | FLASH_LOAN_COLLATERAL_SWAP | STAKE | UNSTAKE
  | CLAIM_REWARDS | GOVERNANCE | BRIDGE

fun operation_value :: "OperationType \<Rightarrow> string" where
  "operation_value O_UNKNOWN = ''unknown''"
| "operation_value SWAP = ''swap''"
| "operation_value ADD_LIQUIDITY = ''add_liquidity''"
| "operation_value REMOVE_LIQUIDITY = ''remove_liquidity''"
| "operation_value DEPOSIT = ''deposit''"
| "operation_value WITHDRAW = ''withdraw''"
| "operation_value BORROW = ''borrow''"
| "operation_value REPAY = ''repay''"
| "operation_value LIQUIDATE = ''liquidate''"
| "operation_value FLASH_LOAN_ARBITRAGE = ''flash_loan_arbitrage''"
| "operation_value FLASH_LOAN_COLLATERAL_SWAP = ''flash_loan_collateral_swap''"
| "operation_value STAKE = ''stake''"
| "operation_value UNSTAKE = ''unstake''"
| "operation_value CLAIM_REWARDS = ''claim_rewards''"
| "operation_value GOVERNANCE = ''governance''"
| "operation_value BRIDGE = ''bridge''"

definition PROTOCOL_ADDRESSES :: "(string \<times> Protocol) list" where
  "PROTOCOL_ADDRESSES =
     [ (''0x7a250d5630b4cf539739df2c5dacb4c659f2488d'', UNISWAP_V2),
       (''0xe592427a0aece92de3edee1f18e0157c05861564'', UNISWAP_V3),
       (''0x68b3465833fb72a70ecdf485e0e4c7bd8665fc45'', UNISWAP_V3),
       (''0x000000000022d473030f116ddee9f6b43ac78ba3'', UNISWAP_V3),
       (''0x3fc91a3afd70395cd496c647d5a6cc9d4b2b7fad'', UNISWAP_V3),
       (''0xd9e1ce17f2641f24ae83637ab66a2cca9c378b9f'', SUSHISWAP),
       (''0x99a58482bd75cbab83b27ec03ca68ff489b5788f'', CURVE),
       (''0xba12222222228d8ba445958a75a0704d566bf2c8'', BALANCER),
       (''0x7d2768de32b0b80b7a3454c06bdac94a69ddc7a9'', AAVE_V2),
       (''0x87870bca3f3fd6335c3f4ce8392d69350b4fa4e2'', AAVE_V3),
       (''0x3d9819210a31b4961b30ef54be2aed79b9c9cd3b'', COMPOUND),
       (''0x1111111254eeb25477b68fb85ed929f73a960582'', ONE_INCH),
       (''0x111111125421ca6dc452d289314280a0f8842a65'', ONE_INCH),
       (''0xae7ab96520de3a18e5e111b5eaab095312d7fe84'', LIDO),
       (''0x5ef30b9986345249bc32d8928b7ee64de9435e39'', MAKER) ]"

definition OPERATION_SELECTORS :: "(string \<times> OperationType) list" where
  "OPERATION_SELECTORS =
     [ (''0x38ed1739'', SWAP), (''0x8803dbee'', SWAP), (''0x7ff36ab5'', SWAP),
       (''0x18cbafe5'', SWAP), (''0x5c11d795'', SWAP), (''0xb6f9de95'', SWAP),
       (''0x791ac947'', SWAP), (''0x04e45aaf'', SWAP), (''0xc04b8d59'', SWAP),
       (''0x472b43f3'', SWAP), (''0x3593564c'', SWAP), (''0x12aa3caf'', SWAP),
       (''0xe449022e'', SWAP),
       (''0xe8e33700'', ADD_LIQUIDITY), (''0xf305d719'', ADD_LIQUIDITY),
       (''0xbaa2abde'', REMOVE_LIQUIDITY), (''0x02751cec'', REMOVE_LIQUIDITY),
       (''0xe8eda9df'', DEPOSIT), (''0x617ba037'', DEPOSIT), (''0x69328dec'', WITHDRAW),
       (''0xa415bcad'', BORROW), (''0x573ade81'', REPAY), (''0x00a718a9'', LIQUIDATE),
       (''0xa0712d68'', DEPOSIT), (''0xdb006a75'', WITHDRAW), (''0xc5ebeaec'', BORROW),
       (''0x0e752702'', REPAY),
       (''0xa694fc3a'', STAKE), (''0x2e1a7d4d'', UNSTAKE), (''0x3d18b912'', CLAIM_REWARDS),
       (''0xe9fad8ee'', UNSTAKE),
       (''0x15373e3d'', GOVERNANCE), (''0x56781388'', GOVERNANCE) ]"

text \<open>
  Of each entry of \<^verbatim>\<open>OPERATION_BOUNDS\<close> the three keys that \<^verbatim>\<open>check_bounds\<close> reads;
  \<open>None\<close> is an absent key.
\<close>

record Bounds =
  max_value_usd :: "int option"
  max_gas :: "int option"
  max_contracts :: "int option"

fun OPERATION_BOUNDS :: "OperationType \<Rightarrow> Bounds option" where
  "OPERATION_BOUNDS SWAP =
     Some \<lparr>max_value_usd = Some 10000000, max_gas = Some 1000000, max_contracts = Some 15\<rparr>"
| "OPERATION_BOUNDS ADD_LIQUIDITY =
     Some \<lparr>max_value_usd = Some 50000000, max_gas = Some 500000, max_contracts = Some 10\<rparr>"
| "OPERATION_BOUNDS DEPOSIT =
     Some \<lparr>max_value_usd = Some 100000000, max_gas = Some 500000, max_contracts = Some 10\<rparr>"
| "OPERATION_BOUNDS BORROW =
     Some \<lparr>max_value_usd = Some 50000000, max_gas = Some 800000, max_contracts = Some 15\<rparr>"
| "OPERATION_BOUNDS FLASH_LOAN_ARBITRAGE =
     Some \<lparr>max_value_usd = None, max_gas = Some 2000000, max_contracts = None\<rparr>"
| "OPERATION_BOUNDS _ = None"

text \<open>A bound violation stands for the tag the source formats from the violated bound.\<close>

datatype BoundViolation = GasExceeds int | ContractsExceed int | ValueExceeds int

record ProtocolContext =
  pc_protocol :: Protocol
  pc_operation :: OperationType
  is_known_protocol :: bool
  is_known_operation :: bool
  within_bounds :: bool
  bound_violations :: "BoundViolation list"
  risk_adjustment :: real

text \<open>
  The result of \<^verbatim>\<open>ProtocolFilter.filter\<close> (the class \<^verbatim>\<open>FilterResult\<close> of this module),
  without its \<^verbatim>\<open>explanation\<close> text, which no caller reads.
\<close>

record ProtocolFilterResult =
  pfr_context :: ProtocolContext
  adjusted_risk_score :: real
  original_risk_score :: real
  should_alert :: bool

record ProtocolFilter =
  protocol_addresses :: "string \<rightharpoonup> Protocol"
  operation_selectors :: "string \<rightharpoonup> OperationType"
  enable_bounds_check :: bool

definition ProtocolFilter_init :: ProtocolFilter where
  \<comment> \<open>\<^verbatim>\<open>ProtocolFilter()\<close> with every argument at its default\<close>
  "ProtocolFilter_init =
     \<lparr> protocol_addresses = dict_of (map (\<lambda>(k, v). (lower k, v)) PROTOCOL_ADDRESSES),
       operation_selectors = dict_of OPERATION_SELECTORS,
       enable_bounds_check = True \<rparr>"

definition identify_protocol :: "ProtocolFilter \<Rightarrow> string option \<Rightarrow> Protocol" where
  "identify_protocol pf to_address =
     (case to_address of
        None \<Rightarrow> P_UNKNOWN
      | Some a \<Rightarrow> if a = [] then P_UNKNOWN
                  else (case protocol_addresses pf (lower a) of
                          Some p \<Rightarrow> p | None \<Rightarrow> P_UNKNOWN))"

definition identify_operation :: "ProtocolFilter \<Rightarrow> string \<Rightarrow> OperationType" where
  "identify_operation pf input_data =
     (if length input_data < 10 then O_UNKNOWN
      else (case operation_selectors pf (lower (take 10 input_data)) of
              Some op \<Rightarrow> op | None \<Rightarrow> O_UNKNOWN))"

definition check_bounds ::
  "ProtocolFilter \<Rightarrow> OperationType \<Rightarrow> AggregatedFeatures \<Rightarrow> bool \<times> BoundViolation list" where
  "check_bounds pf operation features =
     (if \<not> enable_bounds_check pf then (True, [])
      else case OPERATION_BOUNDS operation of
        None \<Rightarrow> (True, [])
      | Some bounds \<Rightarrow>
          let gas_used = (case metadata features ''gas_used'' of Some g \<Rightarrow> g | None \<Rightarrow> 0);
              v1 = (case max_gas bounds of
                      Some mg \<Rightarrow> append_if (mg \<noteq> 0 \<and> gas_used > mg) (GasExceeds mg) []
                    | None \<Rightarrow> []);
              v2 = (case max_contracts bounds of
                      Some mc \<Rightarrow>
                        append_if (mc \<noteq> 0 \<and>
                                   unique_contracts_modified (state_variance features) > mc)
                          (ContractsExceed mc) v1
                    | None \<Rightarrow> v1);
              violations =
                (case max_value_usd bounds of
                   Some mv \<Rightarrow>
                     if mv \<noteq> 0 then
                       let eth_price = (2000 :: real);
                           value_usd = of_int (max_value_delta (state_variance features))
                                         / 10 ^ 18 * eth_price
                       in append_if (value_usd > of_int mv) (ValueExceeds mv) v2
                     else v2
                 | None \<Rightarrow> v2)
          in (length violations = 0, violations))"

definition calculate_risk_adjustment ::
  "Protocol \<Rightarrow> OperationType \<Rightarrow> bool \<Rightarrow> bool \<Rightarrow> bool \<Rightarrow> AggregatedFeatures \<Rightarrow> real" where
  "calculate_risk_adjustment protocol operation known_protocol known_operation in_bounds features =
     (let a0 = (0 :: real);
          a1 = (if known_protocol \<and> known_operation then
                  (let b = a0 - 20 / 100 in if in_bounds then b - 10 / 100 else b + 25 / 100)
                else if \<not> known_protocol \<and> \<not> known_operation then a0
                else
                  (let b = (if known_protocol then a0 - 5 / 100 else a0)
                   in if known_operation then b - 5 / 100 else b));
          a2 = (if has_flash_loan (flash_loan features) then
                  (if operation \<notin> set [FLASH_LOAN_ARBITRAGE, FLASH_LOAN_COLLATERAL_SWAP, LIQUIDATE]
                   then a1 + 35 / 100 else a1)
                else a1);
          safe_operations = {SWAP, ADD_LIQUIDITY, DEPOSIT, STAKE, CLAIM_REWARDS, GOVERNANCE};
          a3 = (if known_protocol \<and> operation \<in> safe_operations \<and> in_bounds \<and>
                   \<not> has_flash_loan (flash_loan features)
                then a2 - 10 / 100 else a2)
      in max (- (1 / 2)) (min (1 / 2) a3))"

definition get_context ::
  "ProtocolFilter \<Rightarrow> AggregatedFeatures \<Rightarrow> string option \<Rightarrow> string \<Rightarrow> ProtocolContext" where
  "get_context pf features to_address input_data =
     (let protocol = identify_protocol pf to_address;
          operation = identify_operation pf input_data;
          known_protocol = (protocol \<noteq> P_UNKNOWN);
          known_operation = (operation \<noteq> O_UNKNOWN);
          (in_bounds, violations) = check_bounds pf operation features;
          adjustment = calculate_risk_adjustment protocol operation known_protocol
                         known_operation in_bounds features
      in \<lparr> pc_protocol = protocol, pc_operation = operation,
           is_known_protocol = known_protocol, is_known_operation = known_operation,
           within_bounds = in_bounds, bound_violations = violations,
           risk_adjustment = adjustment \<rparr>)"

text \<open>\<^verbatim>\<open>ProtocolFilter.filter\<close>.\<close>

definition pf_filter ::
  "ProtocolFilter \<Rightarrow> AggregatedFeatures \<Rightarrow> real \<Rightarrow> string option \<Rightarrow> string
     \<Rightarrow> ProtocolFilterResult" where
  "pf_filter pf features original to_address input_data =
     (let context = get_context pf features to_address input_data;
          adjusted_score0 = original + risk_adjustment context * original;
          adjusted_score = max 0 (min 1 adjusted_score0)
      in \<lparr> pfr_context = context, adjusted_risk_score = adjusted_score,
           original_risk_score = original, should_alert = (adjusted_score \<ge> 1 / 2) \<rparr>)"

text \<open>A swap on the Uniswap V2 router, as recipient address and calldata.\<close>

definition uniswap_v2_router :: string where
  "uniswap_v2_router = ''0x7a250d5630b4cf539739df2c5dacb4c659f2488d''"

definition swap_calldata :: string where
  "swap_calldata = ''0x38ed173900''"

section \<open>Signal engine (inference/signal.py)\<close>

datatype RiskLevel = SAFE | LOW | MEDIUM | HIGH | CRITICAL

fun risk_level_value :: "RiskLevel \<Rightarrow> string" where
  "risk_level_value SAFE = ''safe''"
| "risk_level_value LOW = ''low''"
| "risk_level_value MEDIUM = ''medium''"
| "risk_level_value HIGH = ''high''"
| "risk_level_value CRITICAL = ''critical''"

fun filter_result_value :: "FilterResult \<Rightarrow> string" where
  "filter_result_value F_SAFE = ''safe''"
| "filter_result_value F_SUSPICIOUS = ''suspicious''"
| "filter_result_value F_UNKNOWN = ''unknown''"

text \<open>
  The explanation of a signal is a sentence assembled from clauses with formatted numbers.
  It is kept as the list of its clauses, each with the values it prints.
\<close>

datatype ExplanationClause =
    ProtocolPrefix string string
  | FlashLoanDetected real "string list"
  | MultipleLargeMovements int
  | ExtremeValueMovement real
  | DeepCallStack int
  | HighStateVariance
  | FlaggedByModel real
  | AppearsNormal
  | MinorAnomalies

record RiskSignal =
  sig_tx_hash :: string
  sig_timestamp :: real
  sig_risk_level :: RiskLevel
  sig_risk_score :: real
  sig_confidence :: real
  sig_ml_score :: real
  sig_ml_confidence :: real
  sig_heuristic_result :: string
  sig_heuristic_confidence :: real
  sig_risk_indicators :: "string list"
  sig_protocol :: string
  sig_operation :: string
  sig_raw_risk_score :: real
  sig_risk_adjustment :: real
  sig_has_flash_loan :: bool
  sig_flash_loan_amount :: real
  sig_unique_contracts :: int
  sig_transfer_count :: int
  sig_max_value_delta :: real
  sig_call_depth :: int
  sig_recommended_action :: string
  sig_explanation :: "ExplanationClause list"
  sig_latency_ms :: real
  sig_model_version :: string

text \<open>
  The generated constructor of the dataclass \<^verbatim>\<open>RiskSignal\<close>, called with keyword
  arguments: an argument is \<open>None\<close> when the call does not pass that keyword. Every field
  but \<^verbatim>\<open>model_version\<close> is declared without a default, so a call that leaves one out
  raises \<^verbatim>\<open>TypeError\<close>.
\<close>

definition RiskSignal_init ::
  "string option \<Rightarrow> real option \<Rightarrow> RiskLevel option \<Rightarrow> real option \<Rightarrow> real option
   \<Rightarrow> real option \<Rightarrow> real option \<Rightarrow> string option \<Rightarrow> real option \<Rightarrow> string list option
   \<Rightarrow> string option \<Rightarrow> string option \<Rightarrow> real option \<Rightarrow> real option
   \<Rightarrow> bool option \<Rightarrow> real option \<Rightarrow> int option \<Rightarrow> int option \<Rightarrow> real option \<Rightarrow> int option
   \<Rightarrow> string option \<Rightarrow> ExplanationClause list option \<Rightarrow> real option \<Rightarrow> string option
   \<Rightarrow> error + RiskSignal" where
  "RiskSignal_init tx_hash timestamp risk_level risk_score confidence
       ml_score ml_confidence heuristic_result heuristic_confidence risk_indicators
       protocol operation raw_risk_score risk_adj
       has_fl flash_loan_amount unique_contracts transfer_count max_delta depth
       recommended_action explanation latency_ms model_version =
     (if tx_hash = None \<or> timestamp = None \<or> risk_level = None \<or> risk_score = None \<or>
         confidence = None \<or> ml_score = None \<or> ml_confidence = None \<or>
         heuristic_result = None \<or> heuristic_confidence = None \<or> risk_indicators = None \<or>
         protocol = None \<or> operation = None \<or> raw_risk_score = None \<or> risk_adj = None \<or>
         has_fl = None \<or> flash_loan_amount = None \<or> unique_contracts = None \<or>
         transfer_count = None \<or> max_delta = None \<or> depth = None \<or>
         recommended_action = None \<or> explanation = None \<or> latency_ms = None
      then Inl TypeError
      else Inr
        \<lparr> sig_tx_hash = the tx_hash, sig_timestamp = the timestamp,
          sig_risk_level = the risk_level, sig_risk_score = the risk_score,
          sig_confidence = the confidence, sig_ml_score = the ml_score,
          sig_ml_confidence = the ml_confidence, sig_heuristic_result = the heuristic_result,
          sig_heuristic_confidence = the heuristic_confidence,
          sig_risk_indicators = the risk_indicators, sig_protocol = the protocol,
          sig_operation = the operation, sig_raw_risk_score = the raw_risk_score,
          sig_risk_adjustment = the risk_adj, sig_has_flash_loan = the has_fl,
          sig_flash_loan_amount = the flash_loan_amount,
          sig_unique_contracts = the unique_contracts,
          sig_transfer_count = the transfer_count, sig_max_value_delta = the max_delta,
          sig_call_depth = the depth, sig_recommended_action = the recommended_action,
          sig_explanation = the explanation, sig_latency_ms = the latency_ms,
          sig_model_version = (case model_version of Some v \<Rightarrow> v | None \<Rightarrow> ''v2.1'') \<rparr>)"

record Stats =
  total_analyzed :: int
  st_safe :: int
  st_low :: int
  st_medium :: int
  st_high :: int
  st_critical :: int
  total_latency_ms :: real
  protocol_adjustments :: int

definition stats_zero :: Stats where
  "stats_zero =
     \<lparr> total_analyzed = 0, st_safe = 0, st_low = 0, st_medium = 0, st_high = 0,
       st_critical = 0, total_latency_ms = 0, protocol_adjustments = 0 \<rparr>"

text \<open>
  The engine. Its alert callbacks are arbitrary callables run after the signal is built,
  with their exceptions caught; they are not part of the model, which keeps the test
  \<open>alerts_emitted\<close> that decides whether they run.
\<close>

record SignalEngine =
  feature_aggregator :: ExtractorInternals
  heuristic_filter :: HeuristicFilter
  protocol_filter :: "ProtocolFilter option"
  min_alert_level :: RiskLevel
  enable_protocol_filter :: bool
  ml_detector :: "IsolationForestDetector option"
  stats :: Stats

definition SignalEngine_init ::
  "ExtractorInternals \<Rightarrow> ModelData option \<Rightarrow> RiskLevel \<Rightarrow> bool \<Rightarrow> SignalEngine" where
  \<comment> \<open>the constructor; \<open>model = None\<close> is a call without \<^verbatim>\<open>model_path\<close>\<close>
  "SignalEngine_init I model_file min_level enable =
     \<lparr> feature_aggregator = I,
       heuristic_filter = HeuristicFilter_init,
       protocol_filter = (if enable then Some ProtocolFilter_init else None),
       min_alert_level = min_level,
       enable_protocol_filter = enable,
       ml_detector = map_option IsolationForestDetector_load model_file,
       stats = stats_zero \<rparr>"

definition score_to_level ::
  "real \<Rightarrow> HeuristicResult \<Rightarrow> DetectionResult option \<Rightarrow> RiskLevel" where
  "score_to_level risk_score heuristic ml_result =
     (if risk_score \<ge> 7 / 10 then CRITICAL
      else if risk_score \<ge> 5 / 10 then HIGH
      else if risk_score \<ge> 35 / 100 then MEDIUM
      else if risk_score \<ge> 2 / 10 then LOW
      else SAFE)"

definition compute_risk ::
  "HeuristicResult \<Rightarrow> DetectionResult option \<Rightarrow> RiskLevel \<times> real \<times> real" where
  "compute_risk heuristic ml_result =
     (let heuristic_score = of_nat (length (hr_risk_indicators heuristic)) / 10;
          ml_score = (case ml_result of Some r \<Rightarrow> dr_anomaly_score r | None \<Rightarrow> 0);
          risk_score = (case ml_result of
                          Some r \<Rightarrow> 4 / 10 * heuristic_score + 6 / 10 * ml_score
                        | None \<Rightarrow> heuristic_score);
          confidence = (case ml_result of
                          Some r \<Rightarrow> 4 / 10 * hr_confidence heuristic + 6 / 10 * dr_confidence r
                        | None \<Rightarrow> hr_confidence heuristic);
          ml_anomaly = (case ml_result of Some r \<Rightarrow> dr_is_anomaly r | None \<Rightarrow> False);
          risk_level =
            (if hr_result heuristic = F_SUSPICIOUS \<and> hr_confidence heuristic > 9 / 10
               then CRITICAL
             else if hr_result heuristic = F_SUSPICIOUS \<and> ml_anomaly then HIGH
             else if hr_result heuristic = F_SUSPICIOUS then MEDIUM
             else if ml_anomaly then
               (if dr_confidence (the ml_result) > 7 / 10 then MEDIUM else LOW)
             else if length (hr_risk_indicators heuristic) \<ge> 2 then LOW
             else SAFE)
      in (risk_level, min risk_score 1, min confidence 1))"

fun get_recommendation :: "RiskLevel \<Rightarrow> string" where
  "get_recommendation SAFE = ''No action required''"
| "get_recommendation LOW = ''Log and monitor''"
| "get_recommendation MEDIUM = ''Alert security team for review''"
| "get_recommendation HIGH = ''Immediate review required - consider manual pause''"
| "get_recommendation CRITICAL =
     ''URGENT: Likely attack in progress - activate incident response''"

definition generate_explanation ::
  "AggregatedFeatures \<Rightarrow> HeuristicResult \<Rightarrow> DetectionResult option \<Rightarrow> RiskLevel
     \<Rightarrow> ExplanationClause list" where
  "generate_explanation features heuristic ml_result risk_level =
     (let e1 = append_if (has_flash_loan (flash_loan features))
                 (FlashLoanDetected (of_int (total_borrowed (flash_loan features)) / 10 ^ 18)
                    (flash_loan_providers (flash_loan features))) [];
          e2 = append_if (large_value_changes (state_variance features) > 3)
                 (MultipleLargeMovements (large_value_changes (state_variance features))) e1;
          e3 = append_if (max_value_delta (state_variance features) > 10 ^ 22)
                 (ExtremeValueMovement
                    (of_int (max_value_delta (state_variance features)) / 10 ^ 18)) e2;
          e4 = append_if (call_depth (opcode features) > 5)
                 (DeepCallStack (call_depth (opcode features))) e3;
          e5 = append_if (variance_ratio (state_variance features) > 1 / 2)
                 HighStateVariance e4;
          explanations =
            (case ml_result of
               Some r \<Rightarrow> append_if (dr_is_anomaly r) (FlaggedByModel (dr_anomaly_score r)) e5
             | None \<Rightarrow> e5)
      in if explanations = [] then
           (if risk_level = SAFE then [AppearsNormal] else [MinorAnomalies])
         else explanations)"

fun risk_priority :: "RiskLevel \<Rightarrow> nat" where
  "risk_priority SAFE = 0"
| "risk_priority LOW = 1"
| "risk_priority MEDIUM = 2"
| "risk_priority HIGH = 3"
| "risk_priority CRITICAL = 4"

definition alerts_emitted :: "SignalEngine \<Rightarrow> RiskSignal \<Rightarrow> bool" where
  \<comment> \<open>the guard of \<^verbatim>\<open>_emit_alerts\<close>\<close>
  "alerts_emitted eng signal \<longleftrightarrow>
     risk_priority (sig_risk_level signal) \<ge> risk_priority (min_alert_level eng)"

definition count_level :: "RiskLevel \<Rightarrow> Stats \<Rightarrow> Stats" where
  \<comment> \<open>\<^verbatim>\<open>self._stats[risk_level.value] += 1\<close>\<close>
  "count_level l s =
     (case l of
        SAFE \<Rightarrow> s\<lparr>st_safe := st_safe s + 1\<rparr>
      | LOW \<Rightarrow> s\<lparr>st_low := st_low s + 1\<rparr>
      | MEDIUM \<Rightarrow> s\<lparr>st_medium := st_medium s + 1\<rparr>
      | HIGH \<Rightarrow> s\<lparr>st_high := st_high s + 1\<rparr>
      | CRITICAL \<Rightarrow> s\<lparr>st_critical := st_critical s + 1\<rparr>)"

definition update_stats :: "RiskLevel \<Rightarrow> real \<Rightarrow> Stats \<Rightarrow> Stats" where
  "update_stats l latency s =
     (let s1 = s\<lparr>total_analyzed := total_analyzed s + 1\<rparr>;
          s2 = count_level l s1
      in s2\<lparr>total_latency_ms := total_latency_ms s2 + latency\<rparr>)"

definition run_detector ::
  "SignalEngine \<Rightarrow> AggregatedFeatures \<Rightarrow> error + DetectionResult option" where
  \<comment> \<open>\<^verbatim>\<open>ml_result = None; if self.ml_detector: ml_result = self.ml_detector.predict(features)\<close>\<close>
  "run_detector eng features =
     (case ml_detector eng of
        None \<Rightarrow> Inr None
      | Some d \<Rightarrow> (case predict d features of Inl e \<Rightarrow> Inl e | Inr r \<Rightarrow> Inr (Some r)))"

text \<open>
  \<^verbatim>\<open>SignalEngine.analyze\<close>. The two clock readings (the time stamp and the measured
  latency) are inputs. The result is the signal and the engine with its counters updated,
  or the exception that the feature extraction, the detector or the construction of the
  signal raises.
\<close>

definition analyze ::
  "SignalEngine \<Rightarrow> TransactionTrace \<Rightarrow> real \<Rightarrow> real \<Rightarrow> error + RiskSignal \<times> SignalEngine" where
  "analyze eng trace now latency =
     (case extract_from_trace (feature_aggregator eng) trace of
        Inl e \<Rightarrow> Inl e
      | Inr features \<Rightarrow>
       let heuristic = filter_with_features features
       in case run_detector eng features of
           Inl e \<Rightarrow> Inl e
         | Inr ml_result \<Rightarrow>
             let (risk_level, risk_score, confidence) = compute_risk heuristic ml_result;
                 explanation = generate_explanation features heuristic ml_result risk_level
             in case RiskSignal_init
                  (Some (tr_tx_hash trace)) (Some now) (Some risk_level) (Some risk_score)
                  (Some confidence)
                  (Some (case ml_result of Some r \<Rightarrow> dr_anomaly_score r | None \<Rightarrow> 0))
                  (Some (case ml_result of Some r \<Rightarrow> dr_confidence r | None \<Rightarrow> 0))
                  (Some (filter_result_value (hr_result heuristic)))
                  (Some (hr_confidence heuristic))
                  (Some (hr_risk_indicators heuristic))
                  None None None None
                  (Some (has_flash_loan (flash_loan features)))
                  (Some (of_int (total_borrowed (flash_loan features)) / 10 ^ 18))
                  (Some (unique_contracts_modified (state_variance features)))
                  (Some (total_storage_changes (state_variance features)))
                  (Some (of_int (max_value_delta (state_variance features)) / 10 ^ 18))
                  (Some (call_depth (opcode features)))
                  (Some (get_recommendation risk_level))
                  (Some explanation)
                  (Some latency)
                  None
                of Inl e \<Rightarrow> Inl e
                 | Inr signal \<Rightarrow>
                     Inr (signal, eng\<lparr>stats := update_stats risk_level latency (stats eng)\<rparr>))"

text \<open>\<^verbatim>\<open>SignalEngine.analyze_async\<close>.\<close>

definition analyze_async ::
  "SignalEngine \<Rightarrow> TransactionTrace \<Rightarrow> real \<Rightarrow> real \<Rightarrow> error + RiskSignal \<times> SignalEngine" where
  "analyze_async eng trace now latency =
     (case extract_from_trace (feature_aggregator eng) trace of
        Inl e \<Rightarrow> Inl e
      | Inr features \<Rightarrow>
       let heuristic = filter_with_features features
       in case run_detector eng features of
           Inl e \<Rightarrow> Inl e
         | Inr ml_result \<Rightarrow>
             let (risk_level0, raw_risk_score, confidence) = compute_risk heuristic ml_result;
                 (protocol_name, operation_name, risk_adj, risk_score, risk_level, stats1) =
                   (case protocol_filter eng of
                      None \<Rightarrow>
                        (''unknown'', ''unknown'', 0, raw_risk_score, risk_level0, stats eng)
                    | Some pf \<Rightarrow>
                        let filter_result = pf_filter pf features raw_risk_score
                                              (tr_to_address trace) (tr_input_data trace);
                            adj = risk_adjustment (pfr_context filter_result);
                            score = adjusted_risk_score filter_result
                        in (protocol_value (pc_protocol (pfr_context filter_result)),
                            operation_value (pc_operation (pfr_context filter_result)),
                            adj, score,
                            score_to_level score heuristic ml_result,
                            (if adj \<noteq> 0
                             then (stats eng)\<lparr>protocol_adjustments :=
                                                protocol_adjustments (stats eng) + 1\<rparr>
                             else stats eng)));
                 explanation0 = generate_explanation features heuristic ml_result risk_level;
                 explanation = (if protocol_name \<noteq> ''unknown''
                                then ProtocolPrefix protocol_name operation_name # explanation0
                                else explanation0)
             in case RiskSignal_init
                  (Some (tr_tx_hash trace)) (Some now) (Some risk_level) (Some risk_score)
                  (Some confidence)
                  (Some (case ml_result of Some r \<Rightarrow> dr_anomaly_score r | None \<Rightarrow> 0))
                  (Some (case ml_result of Some r \<Rightarrow> dr_confidence r | None \<Rightarrow> 0))
                  (Some (filter_result_value (hr_result heuristic)))
                  (Some (hr_confidence heuristic))
                  (Some (hr_risk_indicators heuristic))
                  (Some protocol_name) (Some operation_name) (Some raw_risk_score)
                  (Some risk_adj)
                  (Some (has_flash_loan (flash_loan features)))
                  (Some (of_int (total_borrowed (flash_loan features)) / 10 ^ 18))
                  (Some (unique_contracts_modified (state_variance features)))
                  (Some (total_storage_changes (state_variance features)))
                  (Some (of_int (max_value_delta (state_variance features)) / 10 ^ 18))
                  (Some (call_depth (opcode features)))
                  (Some (get_recommendation risk_level))
                  (Some explanation)
                  (Some latency)
                  None
                of Inl e \<Rightarrow> Inl e
                 | Inr signal \<Rightarrow>
                     Inr (signal, eng\<lparr>stats := update_stats risk_level latency stats1\<rparr>))"

text \<open>Examples: a plain call to an unknown address, and three engines.\<close>

definition trace_plain :: TransactionTrace where
  "trace_plain =
     \<lparr> tr_tx_hash = ''0xc1'', tr_block_number = 18000000, tr_from_address = ''0x22'',
       tr_to_address = Some ''0x3333333333333333333333333333333333333333'',
       tr_value = 0, tr_gas_used = 21000, tr_gas_price = 1,
       tr_input_data = ''0x'', tr_status = True, tr_logs = [],
       tr_call_trace = None, tr_storage_changes = [], tr_opcodes = [],
       tr_contracts_called = [], tr_created_contracts = [],
       tr_selfdestruct_contracts = [] \<rparr>"

definition engine_default :: SignalEngine where
  \<comment> \<open>\<^verbatim>\<open>SignalEngine()\<close>\<close>
  "engine_default = SignalEngine_init internals_trivial None MEDIUM True"

definition engine_filtered :: SignalEngine where
  \<comment> \<open>\<^verbatim>\<open>SignalEngine(model_path=...)\<close>\<close>
  "engine_filtered = SignalEngine_init internals_trivial (Some model_data_low) MEDIUM True"

definition engine_unfiltered :: SignalEngine where
  \<comment> \<open>\<^verbatim>\<open>SignalEngine(model_path=..., enable_protocol_filter=False)\<close>\<close>
  "engine_unfiltered = SignalEngine_init internals_trivial (Some model_data_low) MEDIUM False"

text \<open>A feature record on which every check of the heuristic filter but the known-exploit one fires.\<close>

definition features_all_indicators :: AggregatedFeatures where
  "features_all_indicators =
     \<lparr> flash_loan =
         \<lparr> has_flash_loan = True, flash_loan_count = 2, flash_loan_providers = [''aave_v2''],
           flash_loan_amounts = [2 * 10 ^ 24], total_borrowed = 2 * 10 ^ 24,
           has_callback = True, callback_selectors = [], nested_flash_loans = True,
           repayment_detected = True \<rparr>,
       state_variance =
         \<lparr> total_storage_changes = 12, unique_contracts_modified = 5,
           unique_slots_modified = 12, balance_slot_changes = 4, large_value_changes = 4,
           max_value_delta = 2 * 10 ^ 22, avg_value_delta = 10 ^ 21, variance_ratio = 6 / 10,
           zero_to_nonzero = 1, nonzero_to_zero = 1 \<rparr>,
       bytecode = bc_empty_features
         \<lparr> bytecode_length := 1000, is_contract := True, contract_age_blocks := 10,
           jaccard_similarity := 8 / 10, has_selfdestruct := True, has_delegatecall := True,
           has_create2 := True, unique_opcodes := 60 \<rparr>,
       opcode = op_empty_features
         \<lparr> total_calls := 51, call_depth := 11, delegatecall_count := 1,
           create2_count := 1, call_count := 48, external_calls := 51,
           unique_call_types := 3 \<rparr>,
       metadata = Map.empty \<rparr>"

text \<open>The signals that the engines with a detector return for the plain call.\<close>

definition signal_unfiltered :: RiskSignal where
  "signal_unfiltered =
     \<lparr> sig_tx_hash = ''0xc1'', sig_timestamp = 0, sig_risk_level = LOW,
       sig_risk_score = 46 / 100, sig_confidence = 53 / 100, sig_ml_score = 7 / 10,
       sig_ml_confidence = 55 / 100, sig_heuristic_result = ''unknown'',
       sig_heuristic_confidence = 1 / 2, sig_risk_indicators = [''new_contract''],
       sig_protocol = ''unknown'', sig_operation = ''unknown'',
       sig_raw_risk_score = 46 / 100, sig_risk_adjustment = 0,
       sig_has_flash_loan = False, sig_flash_loan_amount = 0, sig_unique_contracts = 0,
       sig_transfer_count = 0, sig_max_value_delta = 0, sig_call_depth = 0,
       sig_recommended_action = ''Log and monitor'',
       sig_explanation = [FlaggedByModel (7 / 10)], sig_latency_ms = 1,
       sig_model_version = ''v2.1'' \<rparr>"

definition signal_filtered :: RiskSignal where
  "signal_filtered =
     signal_unfiltered
       \<lparr> sig_risk_level := MEDIUM,
         sig_recommended_action := ''Alert security team for review'' \<rparr>"

section \<open>Flash-loan signals of a trace\<close>

text \<open>
  The three sources of a flash-loan signal, stated on the trace in the words of the
  specification: a flash-loan selector on a call of the call tree, a flash-loan selector on
  the outer calldata, a flash-loan event topic in first position of a log. Likewise a
  callback selector on a call of the call tree.
\<close>

fun signal_in_call_tree :: "TraceCall \<Rightarrow> bool" where
  "signal_in_call_tree (TraceCall ct fr to v g gu inp out d children) \<longleftrightarrow>
     selector_of inp \<in> set flash_loan_sigs \<or> list_ex signal_in_call_tree children"

fun callback_in_call_tree :: "TraceCall \<Rightarrow> bool" where
  "callback_in_call_tree (TraceCall ct fr to v g gu inp out d children) \<longleftrightarrow>
     selector_of inp \<in> set callback_sigs \<or> list_ex callback_in_call_tree children"

definition signal_in_logs :: "TraceLog list \<Rightarrow> bool" where
  "signal_in_logs logs \<longleftrightarrow>
     list_ex (\<lambda>l. case log_topics l of
                     [] \<Rightarrow> False
                   | topic0 # _ \<Rightarrow> flash_loan_event_topics topic0 \<noteq> None) logs"

definition any_flash_loan_signal :: "TransactionTrace \<Rightarrow> bool" where
  "any_flash_loan_signal trace \<longleftrightarrow>
     (case tr_call_trace trace of Some c \<Rightarrow> signal_in_call_tree c | None \<Rightarrow> False) \<or>
     selector_of (tr_input_data trace) \<in> set flash_loan_sigs \<or>
     signal_in_logs (tr_logs trace)"

definition any_callback_call :: "TransactionTrace \<Rightarrow> bool" where
  "any_callback_call trace \<longleftrightarrow>
     (case tr_call_trace trace of Some c \<Rightarrow> callback_in_call_tree c | None \<Rightarrow> False)"

text \<open>
  Further examples: a trace whose only flash-loan signal is an Aave V2 event log, a
  contract-creation trace whose calldata has an odd number of hexadecimal digits, the
  features of the plain call, and a feature record with a borrowed amount of \<open>2^256 - 1\<close>.
\<close>

definition trace_flash_log :: TransactionTrace where
  "trace_flash_log =
     \<lparr> tr_tx_hash = ''0xd1'', tr_block_number = 18000000, tr_from_address = ''0x22'',
       tr_to_address = Some ''0x3333333333333333333333333333333333333333'',
       tr_value = 0, tr_gas_used = 300000, tr_gas_price = 1,
       tr_input_data = ''0x'', tr_status = True,
       tr_logs =
         [ \<lparr> log_address = ''0x7d2768de32b0b80b7a3454c06bdac94a69ddc7a9'',
             log_topics =
               [''0x631042c832b07452973831137f2d73e395028b44b250dedc5abb0ee766e168ac''],
             log_data = ''0x'' \<rparr> ],
       tr_call_trace = None, tr_storage_changes = [], tr_opcodes = [],
       tr_contracts_called = [], tr_created_contracts = [],
       tr_selfdestruct_contracts = [] \<rparr>"

definition trace_odd_creation :: TransactionTrace where
  "trace_odd_creation =
     \<lparr> tr_tx_hash = ''0xe1'', tr_block_number = 18000000, tr_from_address = ''0x22'',
       tr_to_address = None, tr_value = 0, tr_gas_used = 60000, tr_gas_price = 1,
       tr_input_data = ''0x6080604'', tr_status = True, tr_logs = [],
       tr_call_trace = None, tr_storage_changes = [], tr_opcodes = [],
       tr_contracts_called = [], tr_created_contracts = [],
       tr_selfdestruct_contracts = [] \<rparr>"

definition features_plain :: AggregatedFeatures where
  "features_plain =
     \<lparr> flash_loan =
         \<lparr> has_flash_loan = False, flash_loan_count = 0, flash_loan_providers = [],
           flash_loan_amounts = [], total_borrowed = 0, has_callback = False,
           callback_selectors = [], nested_flash_loans = False, repayment_detected = False \<rparr>,
       state_variance = sv_empty_features,
       bytecode = bc_empty_features,
       opcode = op_empty_features,
       metadata = dict_of
         [ (''block_number'', 18000000), (''value'', 0), (''gas_used'', 21000),
           (''contracts_called'', 0), (''created_contracts'', 0) ] \<rparr>"

definition features_huge_amount :: AggregatedFeatures where
  "features_huge_amount =
     features_plain
       \<lparr> flash_loan :=
           \<lparr> has_flash_loan = True, flash_loan_count = 1, flash_loan_providers = [],
             flash_loan_amounts = [2 ^ 256 - 1], total_borrowed = 2 ^ 256 - 1,
             has_callback = True, callback_selectors = [], nested_flash_loans = False,
             repayment_detected = False \<rparr> \<rparr>"

section \<open>Properties\<close>

subsection \<open>Simple transfers\<close>

text \<open>
  C8, as stated: a pending transaction is a simple transfer if and only if \<open>to\<close> is
  present and the input calldata is empty. The property fails for a transaction with no
  recipient and empty calldata: the predicate of the source reads the calldata only.
\<close>

theorem C8_simple_transfer_counterexample:
  "\<not> (is_simple_transfer tx_no_recipient \<longleftrightarrow>
        (ptx_to_address tx_no_recipient \<noteq> None \<and>
         (ptx_input_data tx_no_recipient = ''0x'' \<or> ptx_input_data tx_no_recipient = '''')))"
  by (simp add: is_simple_transfer_def tx_no_recipient_def)

text \<open>
  C8, amended: a pending transaction is a simple transfer if and only if its input calldata
  is empty (the hex string \<open>0x\<close> or the empty string), whatever its recipient field holds;
  a simple transfer is neither a contract interaction nor a contract creation and has no
  selector.
\<close>

theorem C8_simple_transfer_amended:
  "(is_simple_transfer tx \<longleftrightarrow> ptx_input_data tx = ''0x'' \<or> ptx_input_data tx = '''') \<and>
   is_simple_transfer (tx\<lparr>ptx_to_address := t\<rparr>) = is_simple_transfer tx \<and>
   (is_simple_transfer tx \<longrightarrow>
      \<not> is_contract_interaction tx \<and> \<not> is_contract_creation tx \<and> selector tx = None)"
  by (auto simp: is_simple_transfer_def is_contract_interaction_def is_contract_creation_def
      selector_def)

theorem C8_simple_transfer_amended_witness:
  "is_simple_transfer tx_no_recipient \<and>
   is_simple_transfer (tx_no_recipient\<lparr>ptx_to_address := Some ''0x22''\<rparr>) \<and>
   \<not> is_contract_interaction tx_no_recipient \<and> \<not> is_contract_creation tx_no_recipient \<and>
   selector tx_no_recipient = None"
  using C8_simple_transfer_amended [of tx_no_recipient "Some ''0x22''"]
  by (simp add: tx_no_recipient_def)

subsection \<open>Shape of the feature vector\<close>

text \<open>
  C1: every feature record serializes to a vector of exactly 43 numbers, laid out as the
  fixed sequence of 43 distinct feature names: position by position, the entry under a name
  is the serialization of the field that name stands for. The statement quantifies over
  every feature record, hence over those produced from a trace and from a pending
  transaction alike.
\<close>

theorem C1_vector_shape:
  "length (to_vector f) = 43 \<and> length feature_names = 43 \<and> distinct feature_names \<and>
   zip feature_names (to_vector f) =
     [ (''fl_has_flash_loan'', b2f (has_flash_loan (flash_loan f))),
       (''fl_count'', of_int (flash_loan_count (flash_loan f))),
       (''fl_provider_count'', of_nat (length (flash_loan_providers (flash_loan f)))),
       (''fl_total_borrowed'',
          (if total_borrowed (flash_loan f) > 0
           then of_int (total_borrowed (flash_loan f)) / 10 ^ 18 else 0)),
       (''fl_has_callback'', b2f (has_callback (flash_loan f))),
       (''fl_callback_count'', of_nat (length (callback_selectors (flash_loan f)))),
       (''fl_nested'', b2f (nested_flash_loans (flash_loan f))),
       (''fl_repayment'', b2f (repayment_detected (flash_loan f))),
       (''sv_storage_changes'', of_int (total_storage_changes (state_variance f))),
       (''sv_contracts_modified'', of_int (unique_contracts_modified (state_variance f))),
       (''sv_slots_modified'', of_int (unique_slots_modified (state_variance f))),
       (''sv_balance_changes'', of_int (balance_slot_changes (state_variance f))),
       (''sv_large_changes'', of_int (large_value_changes (state_variance f))),
       (''sv_max_delta'',
          (if max_value_delta (state_variance f) > 0
           then of_int (max_value_delta (state_variance f)) / 10 ^ 18 else 0)),
       (''sv_avg_delta'',
          (if avg_value_delta (state_variance f) > 0
           then avg_value_delta (state_variance f) / 10 ^ 18 else 0)),
       (''sv_variance_ratio'', variance_ratio (state_variance f)),
       (''sv_zero_to_nonzero'', of_int (zero_to_nonzero (state_variance f))),
       (''sv_nonzero_to_zero'', of_int (nonzero_to_zero (state_variance f))),
       (''bc_length'', of_int (bytecode_length (bytecode f))),
       (''bc_is_contract'', b2f (is_contract (bytecode f))),
       (''bc_is_proxy'', b2f (is_proxy (bytecode f))),
       (''bc_age_blocks'', of_int (contract_age_blocks (bytecode f))),
       (''bc_is_verified'', b2f (is_verified (bytecode f))),
       (''bc_matches_exploit'', b2f (matches_known_exploit (bytecode f))),
       (''bc_jaccard'', jaccard_similarity (bytecode f)),
       (''bc_has_selfdestruct'', b2f (has_selfdestruct (bytecode f))),
       (''bc_has_delegatecall'', b2f (has_delegatecall (bytecode f))),
       (''bc_has_create2'', b2f (has_create2 (bytecode f))),
       (''bc_unique_opcodes'', of_int (unique_opcodes (bytecode f))),
       (''op_total_calls'', of_int (total_calls (opcode f))),
       (''op_call_depth'', of_int (call_depth (opcode f))),
       (''op_delegatecall'', of_int (delegatecall_count (opcode f))),
       (''op_staticcall'', of_int (staticcall_count (opcode f))),
       (''op_create'', of_int (create_count (opcode f))),
       (''op_create2'', of_int (create2_count (opcode f))),
       (''op_selfdestruct'', of_int (selfdestruct_count (opcode f))),
       (''op_call'', of_int (call_count (opcode f))),
       (''op_internal_calls'', of_int (internal_calls (opcode f))),
       (''op_external_calls'', of_int (external_calls (opcode f))),
       (''op_unique_types'', of_int (unique_call_types (opcode f))),
       (''op_value_transfers'', of_int (call_value_transfers (opcode f))),
       (''op_gas_ratio'', gas_forwarded_ratio (opcode f)),
       (''op_revert_count'', of_int (revert_count (opcode f))) ]"
proof (intro conjI)
  show "length (to_vector f) = 43"
    by (simp add: to_vector_def fl_to_vector_def sv_to_vector_def bc_to_vector_def
        op_to_vector_def)
  show "length feature_names = 43"
    by (simp add: feature_names_def)
  show "distinct feature_names"
    by (simp add: feature_names_def)
  show "zip feature_names (to_vector f) = [ (''fl_has_flash_loan'', b2f (has_flash_loan (flash_loan f))),
       (''fl_count'', of_int (flash_loan_count (flash_loan f))),
       (''fl_provider_count'', of_nat (length (flash_loan_providers (flash_loan f)))),
       (''fl_total_borrowed'',
          (if total_borrowed (flash_loan f) > 0
           then of_int (total_borrowed (flash_loan f)) / 10 ^ 18 else 0)),
       (''fl_has_callback'', b2f (has_callback (flash_loan f))),
       (''fl_callback_count'', of_nat (length (callback_selectors (flash_loan f)))),
       (''fl_nested'', b2f (nested_flash_loans (flash_loan f))),
       (''fl_repayment'', b2f (repayment_detected (flash_loan f))),
       (''sv_storage_changes'', of_int (total_storage_changes (state_variance f))),
       (''sv_contracts_modified'', of_int (unique_contracts_modified (state_variance f))),
       (''sv_slots_modified'', of_int (unique_slots_modified (state_variance f))),
       (''sv_balance_changes'', of_int (balance_slot_changes (state_variance f))),
       (''sv_large_changes'', of_int (large_value_changes (state_variance f))),
       (''sv_max_delta'',
          (if max_value_delta (state_variance f) > 0
           then of_int (max_value_delta (state_variance f)) / 10 ^ 18 else 0)),
       (''sv_avg_delta'',
          (if avg_value_delta (state_variance f) > 0
           then avg_value_delta (state_variance f) / 10 ^ 18 else 0)),
       (''sv_variance_ratio'', variance_ratio (state_variance f)),
       (''sv_zero_to_nonzero'', of_int (zero_to_nonzero (state_variance f))),
       (''sv_nonzero_to_zero'', of_int (nonzero_to_zero (state_variance f))),
       (''bc_length'', of_int (bytecode_length (bytecode f))),
       (''bc_is_contract'', b2f (is_contract (bytecode f))),
       (''bc_is_proxy'', b2f (is_proxy (bytecode f))),
       (''bc_age_blocks'', of_int (contract_age_blocks (bytecode f))),
       (''bc_is_verified'', b2f (is_verified (bytecode f))),
       (''bc_matches_exploit'', b2f (matches_known_exploit (bytecode f))),
       (''bc_jaccard'', jaccard_similarity (bytecode f)),
       (''bc_has_selfdestruct'', b2f (has_selfdestruct (bytecode f))),
       (''bc_has_delegatecall'', b2f (has_delegatecall (bytecode f))),
       (''bc_has_create2'', b2f (has_create2 (bytecode f))),
       (''bc_unique_opcodes'', of_int (unique_opcodes (bytecode f))),
       (''op_total_calls'', of_int (total_calls (opcode f))),
       (''op_call_depth'', of_int (call_depth (opcode f))),
       (''op_delegatecall'', of_int (delegatecall_count (opcode f))),
       (''op_staticcall'', of_int (staticcall_count (opcode f))),
       (''op_create'', of_int (create_count (opcode f))),
       (''op_create2'', of_int (create2_count (opcode f))),
       (''op_selfdestruct'', of_int (selfdestruct_count (opcode f))),
       (''op_call'', of_int (call_count (opcode f))),
       (''op_internal_calls'', of_int (internal_calls (opcode f))),
       (''op_external_calls'', of_int (external_calls (opcode f))),
       (''op_unique_types'', of_int (unique_call_types (opcode f))),
       (''op_value_transfers'', of_int (call_value_transfers (opcode f))),
       (''op_gas_ratio'', gas_forwarded_ratio (opcode f)),
       (''op_revert_count'', of_int (revert_count (opcode f))) ]"
    unfolding to_vector_def fl_to_vector_def sv_to_vector_def bc_to_vector_def
        op_to_vector_def feature_names_def
    by (simp split del: if_split cong: if_cong)
qed

subsection \<open>Flash loans and callbacks\<close>

lemma fold_children_calls:
  assumes "\<And>child a. child \<in> set children \<Longrightarrow>
             (flash_loan_calls (step child a) \<noteq> []) =
               (flash_loan_calls a \<noteq> [] \<or> signal_in_call_tree child)"
  shows "(flash_loan_calls (fold step children acc) \<noteq> []) =
           (flash_loan_calls acc \<noteq> [] \<or> list_ex signal_in_call_tree children)"
  using assms by (induction children arbitrary: acc) auto

lemma fold_children_callbacks:
  assumes "\<And>child a. child \<in> set children \<Longrightarrow>
             (callback_calls (step child a) \<noteq> []) =
               (callback_calls a \<noteq> [] \<or> callback_in_call_tree child)"
  shows "(callback_calls (fold step children acc) \<noteq> []) =
           (callback_calls acc \<noteq> [] \<or> list_ex callback_in_call_tree children)"
  using assms by (induction children arbitrary: acc) auto

lemma analyze_call_tree_calls:
  "(flash_loan_calls (analyze_call_tree int16 c depth acc) \<noteq> []) =
     (flash_loan_calls acc \<noteq> [] \<or> signal_in_call_tree c)"
proof (induction int16 c depth acc rule: analyze_call_tree.induct)
  case (1 int16 ct fr to v g gu inp out d children depth acc)
  show ?case
    unfolding analyze_call_tree.simps [of int16 ct fr to v g gu inp out d children depth acc]
      Let_def
    by (subst fold_children_calls [where children = children])
       (use 1 in \<open>auto simp: Let_def split: option.splits\<close>)
qed

lemma analyze_call_tree_callbacks:
  "(callback_calls (analyze_call_tree int16 c depth acc) \<noteq> []) =
     (callback_calls acc \<noteq> [] \<or> callback_in_call_tree c)"
proof (induction int16 c depth acc rule: analyze_call_tree.induct)
  case (1 int16 ct fr to v g gu inp out d children depth acc)
  show ?case
    unfolding analyze_call_tree.simps [of int16 ct fr to v g gu inp out d children depth acc]
      Let_def
    by (subst fold_children_callbacks [where children = children])
       (use 1 in \<open>auto simp: Let_def split: option.splits\<close>)
qed

lemma detect_flash_loans_from_logs_nonempty:
  "(detect_flash_loans_from_logs int16 logs \<noteq> []) = signal_in_logs logs"
proof (induction logs)
  case Nil
  show ?case by (simp add: signal_in_logs_def)
next
  case (Cons l ls)
  show ?case
  proof (cases "log_topics l")
    case Nil
    with Cons.IH show ?thesis by (simp add: signal_in_logs_def)
  next
    case (Cons topic0 rest)
    with Cons.IH show ?thesis
      by (cases "flash_loan_event_topics topic0") (simp_all add: signal_in_logs_def)
  qed
qed

lemma fold_keeps_calls:
  assumes "\<And>x a. flash_loan_calls (step x a) = flash_loan_calls a"
  shows "flash_loan_calls (fold step xs acc) = flash_loan_calls acc"
  using assms by (induction xs arbitrary: acc) simp_all

lemma fold_keeps_callbacks:
  assumes "\<And>x a. callback_calls (step x a) = callback_calls a"
  shows "callback_calls (fold step xs acc) = callback_calls acc"
  using assms by (induction xs arbitrary: acc) simp_all

lemma analyze_call_tree_empty:
  "(flash_loan_calls (analyze_call_tree int16 c depth acc) = []) =
     (flash_loan_calls acc = [] \<and> \<not> signal_in_call_tree c)"
  "(callback_calls (analyze_call_tree int16 c depth acc) = []) =
     (callback_calls acc = [] \<and> \<not> callback_in_call_tree c)"
  using analyze_call_tree_calls [of int16 c depth acc]
    analyze_call_tree_callbacks [of int16 c depth acc]
  by blast+

lemma detect_flash_loans_from_logs_empty:
  "(detect_flash_loans_from_logs int16 logs = []) = (\<not> signal_in_logs logs)"
  using detect_flash_loans_from_logs_nonempty [of int16 logs] by blast

lemma fl_extract_has_flash_loan:
  "has_flash_loan (fl_extract int16 trace) = any_flash_loan_signal trace"
  by (cases "tr_call_trace trace")
     (auto simp add: fl_extract_def Let_def fold_keeps_calls analyze_call_tree_empty
        detect_flash_loans_from_logs_empty any_flash_loan_signal_def)

lemma fl_extract_callback_selectors:
  "(callback_selectors (fl_extract int16 trace) \<noteq> []) = any_callback_call trace"
  by (cases "tr_call_trace trace")
     (auto simp add: fl_extract_def Let_def fold_keeps_callbacks analyze_call_tree_empty
        any_callback_call_def)

lemma fl_extract_has_callback:
  "has_callback (fl_extract int16 trace) =
     (callback_selectors (fl_extract int16 trace) \<noteq> [] \<or>
      has_flash_loan (fl_extract int16 trace))"
  by (auto simp add: fl_extract_def Let_def)

text \<open>
  C10: for every executed trace, \<open>has_flash_loan\<close> implies \<open>has_callback\<close> in the output of
  the flash-loan extractor. \<open>has_flash_loan\<close> is set exactly when one of the three
  flash-loan signals fires on the trace (a flash-loan selector on a call of the tree or on
  the outer calldata, a flash-loan event log), and \<open>has_callback\<close> exactly when such a
  signal fires or the call tree holds a callback selector: whenever any flash-loan signal
  fires, \<open>has_callback\<close> is true, also with an empty callback-selector list.
\<close>

theorem C10_flash_loan_implies_callback:
  "(any_flash_loan_signal trace \<longrightarrow> has_callback (fl_extract int16 trace)) \<and>
   (has_flash_loan (fl_extract int16 trace) \<longrightarrow> has_callback (fl_extract int16 trace)) \<and>
   has_flash_loan (fl_extract int16 trace) = any_flash_loan_signal trace \<and>
   has_callback (fl_extract int16 trace) =
     (any_callback_call trace \<or> any_flash_loan_signal trace) \<and>
   (callback_selectors (fl_extract int16 trace) \<noteq> []) = any_callback_call trace"
  using fl_extract_has_callback [of int16 trace]
  by (simp add: fl_extract_has_flash_loan fl_extract_callback_selectors)

theorem C10_flash_loan_implies_callback_witness:
  "any_flash_loan_signal trace_flash_log \<and>
   has_flash_loan (fl_extract int16_plain trace_flash_log) \<and>
   callback_selectors (fl_extract int16_plain trace_flash_log) = [] \<and>
   has_callback (fl_extract int16_plain trace_flash_log) \<and>
   any_flash_loan_signal trace_flash_input \<and>
   has_callback (fl_extract int16_plain trace_flash_input) \<and>
   \<not> any_flash_loan_signal trace_plain \<and>
   \<not> has_callback (fl_extract int16_plain trace_plain)"
proof -
  have s1: "any_flash_loan_signal trace_flash_log"
    by (simp add: any_flash_loan_signal_def signal_in_logs_def trace_flash_log_def
        flash_loan_event_topics_def FLASH_LOAN_EVENT_TOPICS_def dict_of_def)
  have c1: "\<not> any_callback_call trace_flash_log"
    by (simp add: any_callback_call_def trace_flash_log_def)
  have s2: "any_flash_loan_signal trace_flash_input"
    by (simp add: any_flash_loan_signal_def trace_flash_input_def selector_of_def
        flash_loan_sigs_def FLASH_LOAN_SIGNATURES_def)
  have s3: "\<not> any_flash_loan_signal trace_plain"
    by (simp add: any_flash_loan_signal_def trace_plain_def selector_of_def
        signal_in_logs_def flash_loan_sigs_def FLASH_LOAN_SIGNATURES_def)
  have c3: "\<not> any_callback_call trace_plain"
    by (simp add: any_callback_call_def trace_plain_def)
  from C10_flash_loan_implies_callback [of trace_flash_log int16_plain]
    C10_flash_loan_implies_callback [of trace_flash_input int16_plain]
    C10_flash_loan_implies_callback [of trace_plain int16_plain]
    s1 c1 s2 s3 c3
  show ?thesis by simp
qed

subsection \<open>Indicator lists of the heuristic filter\<close>

lemma subseq_append_if:
  "subseq xs ys \<Longrightarrow> subseq (append_if c x xs) (ys @ [x])"
  by (simp add: append_if_def list_emb_append_mono list_emb_prefix)

lemma subseq_before_exploit:
  "subseq (indicators_before_exploit f)
     [''flash_loan_detected'', ''nested_flash_loans'', ''large_flash_loan'',
      ''flash_loan_with_complex_activity'', ''high_state_variance'',
      ''multiple_large_changes'', ''extreme_value_movement'']"
proof -
  let ?fl = "if has_flash_loan (flash_loan f) then
               append_if (large_value_changes (state_variance f) > 3 \<or>
                          total_storage_changes (state_variance f) > 10 \<or>
                          max_value_delta (state_variance f) > 10 ^ 22)
                 ''flash_loan_with_complex_activity''
                 (append_if (total_borrowed (flash_loan f) > 10 ^ 24) ''large_flash_loan''
                   (append_if (nested_flash_loans (flash_loan f)) ''nested_flash_loans''
                      [''flash_loan_detected'']))
             else []"
  have a: "subseq ?fl ([''flash_loan_detected''] @ [''nested_flash_loans''] @
             [''large_flash_loan''] @ [''flash_loan_with_complex_activity''])"
    using subseq_append_if [OF subseq_append_if [OF subseq_append_if
      [of "[''flash_loan_detected'']" "[''flash_loan_detected'']"]]]
    by (simp del: subseq_Cons2_iff)
  show ?thesis
    unfolding indicators_before_exploit_def Let_def
    using subseq_append_if [OF subseq_append_if [OF subseq_append_if [OF a]]]
    by simp
qed

lemma subseq_distinct:
  "subseq xs ys \<Longrightarrow> distinct ys \<Longrightarrow> distinct xs"
proof (induction rule: list_emb.induct)
  case (list_emb_Nil ys)
  then show ?case by simp
next
  case (list_emb_Cons xs ys y)
  then show ?case by simp
next
  case (list_emb_Cons2 x y xs ys)
  then have "set xs \<subseteq> set ys" by (auto dest: list_emb_set)
  with list_emb_Cons2 show ?case by auto
qed

lemma subseq_after_exploit:
  assumes "subseq i7 pre"
  shows "subseq
     (append_if c7 ''high_call_count''
       (append_if c6 ''deep_call_stack''
         (append_if c5 ''uses_create2''
           (append_if c4 ''uses_delegatecall''
             (append_if c3 ''selfdestruct_opcode''
               (append_if c2 ''new_contract''
                 (append_if c1 ''high_bytecode_similarity'' i7)))))))
     (pre @ [''matches_known_exploit''] @ [''high_bytecode_similarity'', ''new_contract'',
        ''selfdestruct_opcode'', ''uses_delegatecall'', ''uses_create2'', ''deep_call_stack'',
        ''high_call_count''])"
proof -
  have "subseq i7 (pre @ [''matches_known_exploit''])"
    using assms by (rule list_emb_prefix)
  from subseq_append_if [OF subseq_append_if [OF subseq_append_if [OF subseq_append_if
     [OF subseq_append_if [OF subseq_append_if [OF subseq_append_if [OF this]]]]]]]
  show ?thesis by simp
qed

lemma filter_with_features_subseq:
  "subseq (hr_risk_indicators (filter_with_features f)) check_order"
proof -
  note pre = subseq_before_exploit [of f]
  have sing: "subseq [''matches_known_exploit''] [''matches_known_exploit'']" by simp
  have ex: "subseq (indicators_before_exploit f @ [''matches_known_exploit'']) check_order"
    using list_emb_prefix [OF list_emb_append_mono [OF pre sing]]
    by (simp add: check_order_def del: subseq_Cons2_iff)
  have rest: "subseq (append_if c7 ''high_call_count''
       (append_if c6 ''deep_call_stack''
         (append_if c5 ''uses_create2''
           (append_if c4 ''uses_delegatecall''
             (append_if c3 ''selfdestruct_opcode''
               (append_if c2 ''new_contract''
                 (append_if c1 ''high_bytecode_similarity'' (indicators_before_exploit f)))))))) check_order"
    for c1 c2 c3 c4 c5 c6 c7
    using subseq_after_exploit [OF pre] by (simp add: check_order_def)
  show ?thesis
    unfolding filter_with_features_def Let_def
    using ex rest by (simp del: subseq_Cons2_iff)
qed

subsection \<open>Known-exploit short circuit\<close>

text \<open>
  C7: for every feature record whose bytecode sub-record has \<open>matches_known_exploit\<close>
  set, the heuristic filter returns the verdict SUSPICIOUS with confidence exactly 0.95 and
  \<open>should_analyze\<close> true, whatever the other fields hold; the indicator list is the list
  of the checks run so far followed by \<open>matches_known_exploit\<close>, and the verdict table on
  the number of indicators is not consulted (the example record has one indicator, for
  which the table would answer UNKNOWN).
\<close>

theorem C7_known_exploit_short_circuit:
  "matches_known_exploit (bytecode f) \<Longrightarrow>
     hr_result (filter_with_features f) = F_SUSPICIOUS \<and>
     hr_confidence (filter_with_features f) = 95 / 100 \<and>
     hr_should_analyze (filter_with_features f) \<and>
     hr_risk_indicators (filter_with_features f) =
       indicators_before_exploit f @ [''matches_known_exploit'']"
  by (simp add: filter_with_features_def Let_def)

theorem C7_known_exploit_short_circuit_witness:
  "matches_known_exploit (bytecode features_exploit_only) \<and>
   hr_result (filter_with_features features_exploit_only) = F_SUSPICIOUS \<and>
   hr_confidence (filter_with_features features_exploit_only) = 95 / 100 \<and>
   hr_should_analyze (filter_with_features features_exploit_only) \<and>
   hr_risk_indicators (filter_with_features features_exploit_only) = [''matches_known_exploit'']"
proof -
  have m: "matches_known_exploit (bytecode features_exploit_only)"
    by (simp add: features_exploit_only_def bc_empty_features_def)
  have pre: "indicators_before_exploit features_exploit_only = []"
    by (simp add: indicators_before_exploit_def features_exploit_only_def Let_def
        sv_empty_features_def append_if_def)
  from C7_known_exploit_short_circuit [OF m] m pre show ?thesis by simp
qed

subsection \<open>Order and duplicates of risk indicators\<close>

lemma subseq_set: "subseq xs ys \<Longrightarrow> set xs \<subseteq> set ys"
  by (auto dest: list_emb_set)

lemma hf_filter_subseq:
  "subseq (hr_risk_indicators (hf_filter hf tx)) pending_check_order"
proof -
  have "subseq (append_if c4 ''high_gas_limit'' (append_if c3 ''large_value_transfer''
          (append_if c2 ''contract_creation'' (append_if c1 ''suspicious_selector'' []))))
        pending_check_order" for c1 c2 c3 c4
    using subseq_append_if [OF subseq_append_if [OF subseq_append_if [OF subseq_append_if
      [of "[]" "[]"]]]]
    by (simp add: pending_check_order_def)
  then show ?thesis
    by (simp add: hf_filter_def Let_def)
qed

lemma sim_tags_fresh:
  "''simulation_timeout'' \<notin> set pending_check_order \<union> set check_order"
  "''simulation_error'' \<notin> set pending_check_order \<union> set check_order"
  by (simp_all add: check_order_def pending_check_order_def)

lemma all_indicators_distinct:
  assumes "is_set_listing set_order"
    and "set (hr_risk_indicators h1) \<subseteq> set pending_check_order"
    and "set (hr_risk_indicators h2) \<subseteq> set check_order"
  shows "distinct (all_indicators set_order h1 h2 t e)"
proof -
  let ?L = "hr_risk_indicators h1 @ hr_risk_indicators h2"
  have d: "distinct (set_order ?L)" and s: "set (set_order ?L) = set ?L"
    using assms(1) by (simp_all add: is_set_listing_def)
  have sub: "set (set_order ?L) \<subseteq> set pending_check_order \<union> set check_order"
    unfolding s set_append using assms(2,3) by (rule Un_mono)
  have f1: "''simulation_timeout'' \<notin> set (set_order ?L)"
    using sub sim_tags_fresh(1) by blast
  have f2: "''simulation_error'' \<notin> set (set_order ?L)"
    using sub sim_tags_fresh(2) by blast
  show ?thesis
    using d f1 f2 by (simp add: all_indicators_def append_if_def)
qed

lemma is_set_listing_remdups: "is_set_listing remdups"
  by (simp add: is_set_listing_def)

lemma is_set_listing_reversed: "is_set_listing set_order_reversed"
  by (simp add: is_set_listing_def set_order_reversed_def)

lemma hf_flash: "hf_filter HeuristicFilter_init tx_flash_pending =
   \<lparr>hr_result = F_SUSPICIOUS, hr_confidence = 7 / 10, hr_reasons = [],
    hr_should_analyze = True,
    hr_risk_indicators = [''suspicious_selector'', ''high_gas_limit'']\<rparr>"
  by (simp add: hf_filter_def HeuristicFilter_init_def tx_flash_pending_def Let_def
      is_simple_transfer_def selector_def is_contract_creation_def append_if_def
      SAFE_SELECTORS_def SUSPICIOUS_SELECTORS_def WHITELISTED_CONTRACTS_def lower_def
      char_lower_def)

lemma extract_flash_pending:
  "extract_from_pending internals_trivial tx_flash_pending =
     Inr \<lparr> flash_loan =
             \<lparr> has_flash_loan = True, flash_loan_count = 1, flash_loan_providers = [],
               flash_loan_amounts = [], total_borrowed = 0, has_callback = False,
               callback_selectors = [], nested_flash_loans = False,
               repayment_detected = False \<rparr>,
           state_variance = sv_empty_features,
           bytecode = bc_empty_features,
           opcode = op_empty_features
             \<lparr> call_count := 1, external_calls := 1, unique_call_types := 1 \<rparr>,
           metadata = dict_of [(''value'', 0), (''gas'', 3000000)] \<rparr>"
proof -
  have p: "provider_addresses ''0x3333333333333333333333333333333333333333'' = None"
    by (simp add: provider_addresses_def FLASH_LOAN_PROVIDERS_def dict_of_def lower_def
        char_lower_def)
  have l: "lower ''0x3333333333333333333333333333333333333333'' =
           ''0x3333333333333333333333333333333333333333''"
    by (simp add: lower_def char_lower_def)
  show ?thesis
    by (simp add: extract_from_pending_def fl_extract_from_input_def tx_flash_pending_def
        selector_of_def flash_loan_sigs_def FLASH_LOAN_SIGNATURES_def
        is_contract_creation_def is_contract_interaction_def l p sv_empty_features_def
        op_empty_features_def)
qed

lemma fwf_flash:
  "hr_risk_indicators (filter_with_features
     (projr (extract_from_pending internals_trivial tx_flash_pending))) =
   [''flash_loan_detected'', ''new_contract'']"
  by (simp add: extract_flash_pending filter_with_features_def indicators_before_exploit_def
      Let_def bc_empty_features_def sv_empty_features_def op_empty_features_def append_if_def)

text \<open>
  C6, as stated: the indicator list of every emitted result is insertion-ordered. The list
  built by \<^verbatim>\<open>InferenceEngine.analyze\<close> passes through a set and comes out in the
  iteration order of that set. For the pending flash-loan call the checks append the four
  tags in the first order below; with the admissible iteration order
  \<open>set_order_reversed\<close> the engine returns the second.
\<close>

theorem C6_insertion_order_counterexample:
  "\<not> isl (extract_from_pending internals_trivial tx_flash_pending) \<and>
   hr_risk_indicators (hf_filter HeuristicFilter_init tx_flash_pending) @
   hr_risk_indicators (filter_with_features
     (projr (extract_from_pending internals_trivial tx_flash_pending))) =
     [''suspicious_selector'', ''high_gas_limit'', ''flash_loan_detected'', ''new_contract''] \<and>
   engine_risk_indicators set_order_reversed HeuristicFilter_init internals_trivial None
     NoSimulation tx_flash_pending =
     Inr [''new_contract'', ''flash_loan_detected'', ''high_gas_limit'',
          ''suspicious_selector'']"
proof -
  have e: "engine_risk_indicators set_order_reversed HeuristicFilter_init internals_trivial
             None NoSimulation tx_flash_pending =
           Inr (all_indicators set_order_reversed
                  (hf_filter HeuristicFilter_init tx_flash_pending)
                  (filter_with_features
                     (projr (extract_from_pending internals_trivial tx_flash_pending)))
                  False False)"
    by (simp add: engine_risk_indicators_def hf_flash extract_flash_pending Let_def)
  have i: "\<not> isl (extract_from_pending internals_trivial tx_flash_pending)"
    by (simp add: extract_flash_pending)
  show ?thesis
    unfolding e using i
    by (simp add: all_indicators_def hf_flash fwf_flash set_order_reversed_def append_if_def)
qed

text \<open>
  C6, amended: the indicator list of every emitted result is duplicate-free. A list taken
  from \<^verbatim>\<open>filter_with_features\<close> alone (trace analysis, signal engine) is moreover a
  subsequence of the fixed sequence of checks, so its order does not depend on the data.
  The list of \<^verbatim>\<open>InferenceEngine.analyze\<close> is duplicate-free for every iteration order
  of the set it passes through; its order is that iteration order, followed by the
  simulation tag. A result is emitted unless the feature extraction or the detector
  raises.
\<close>

theorem C6_indicators_amended:
  assumes "is_set_listing set_order"
  shows "distinct (hr_risk_indicators (filter_with_features f)) \<and>
         subseq (hr_risk_indicators (filter_with_features f)) check_order \<and>
         (\<forall>ris. trace_risk_indicators I trace = Inr ris \<longrightarrow>
                distinct ris \<and> subseq ris check_order) \<and>
         isl (trace_risk_indicators I trace) = isl (extract_from_trace I trace) \<and>
         (\<forall>ris. engine_risk_indicators set_order hf I detector sim tx = Inr ris \<longrightarrow>
                distinct ris) \<and>
         (\<not> isl (extract_from_pending I tx) \<longrightarrow>
            \<not> isl (engine_risk_indicators set_order hf I None sim tx))"
proof (intro conjI)
  have cd: "distinct check_order" by (simp add: check_order_def)
  have d: "distinct (hr_risk_indicators (filter_with_features g))" for g
    using subseq_distinct [OF filter_with_features_subseq cd] .
  show "distinct (hr_risk_indicators (filter_with_features f))" by (rule d)
  show "subseq (hr_risk_indicators (filter_with_features f)) check_order"
    by (rule filter_with_features_subseq)
  show "\<forall>ris. trace_risk_indicators I trace = Inr ris \<longrightarrow>
          distinct ris \<and> subseq ris check_order"
    by (auto simp: trace_risk_indicators_def d filter_with_features_subseq split: sum.splits)
  show "isl (trace_risk_indicators I trace) = isl (extract_from_trace I trace)"
    by (simp add: trace_risk_indicators_def split: sum.splits)
  have a: "distinct (all_indicators set_order (hf_filter hf tx) (filter_with_features g) t e)"
    for g t e
    using all_indicators_distinct [OF assms subseq_set [OF hf_filter_subseq]
        subseq_set [OF filter_with_features_subseq]] .
  show "\<forall>ris. engine_risk_indicators set_order hf I detector sim tx = Inr ris \<longrightarrow>
          distinct ris"
    by (auto simp: engine_risk_indicators_def Let_def a
        split: sum.splits if_splits prod.splits)
  show "\<not> isl (extract_from_pending I tx) \<longrightarrow>
          \<not> isl (engine_risk_indicators set_order hf I None sim tx)"
    by (auto simp: engine_risk_indicators_def Let_def split: sum.splits prod.splits)
qed

lemma extract_flash_input:
  "\<not> isl (extract_from_trace internals_trivial trace_flash_input)"
  by (simp add: extract_from_trace_def sv_extract_def op_extract_def trace_flash_input_def
      Let_def)

theorem C6_indicators_amended_witness:
  "is_set_listing (remdups :: string list \<Rightarrow> string list) \<and>
   \<not> isl (trace_risk_indicators internals_trivial trace_flash_input) \<and>
   distinct (projr (trace_risk_indicators internals_trivial trace_flash_input)) \<and>
   subseq (projr (trace_risk_indicators internals_trivial trace_flash_input)) check_order \<and>
   \<not> isl (engine_risk_indicators remdups HeuristicFilter_init internals_trivial None
           NoSimulation tx_flash_pending) \<and>
   distinct (projr (engine_risk_indicators remdups HeuristicFilter_init internals_trivial
     None NoSimulation tx_flash_pending))"
proof -
  note inst = C6_indicators_amended [OF is_set_listing_remdups, of features_plain
      internals_trivial trace_flash_input HeuristicFilter_init None NoSimulation
      tx_flash_pending]
  have t: "\<not> isl (trace_risk_indicators internals_trivial trace_flash_input)"
    using inst extract_flash_input by simp
  have p: "\<not> isl (extract_from_pending internals_trivial tx_flash_pending)"
    by (simp add: extract_flash_pending)
  have e: "\<not> isl (engine_risk_indicators remdups HeuristicFilter_init internals_trivial
                   None NoSimulation tx_flash_pending)"
    using inst p by simp
  from t obtain r1 where r1: "trace_risk_indicators internals_trivial trace_flash_input = Inr r1"
    by (cases "trace_risk_indicators internals_trivial trace_flash_input") auto
  from e obtain r2 where r2: "engine_risk_indicators remdups HeuristicFilter_init
      internals_trivial None NoSimulation tx_flash_pending = Inr r2"
    by (cases "engine_risk_indicators remdups HeuristicFilter_init internals_trivial None
          NoSimulation tx_flash_pending") auto
  from inst r1 r2 have "distinct r1 \<and> subseq r1 check_order \<and> distinct r2" by blast
  with t e r1 r2 is_set_listing_remdups show ?thesis by simp
qed

subsection \<open>Published anomaly score\<close>

lemma predict_trained:
  assumes "is_trained d" and "model d = Some m" and "scaler d = Some sc"
    and "sc_transform sc (to_vector f) = Some x" and "m x = Some v"
  shows "predict d f =
     Inr \<lparr> dr_anomaly_score = normalize_score v,
           dr_is_anomaly = (normalize_score v \<ge> det_threshold d),
           dr_confidence = calculate_confidence d (normalize_score v),
           dr_feature_contributions = calculate_feature_contributions d x,
           dr_threshold = det_threshold d \<rparr>"
  using assms by (simp add: predict_def Let_def)

lemma predict_returns:
  assumes "predict d f = Inr r"
  shows "\<exists>m sc x v. is_trained d \<and> model d = Some m \<and> scaler d = Some sc \<and>
           sc_transform sc (to_vector f) = Some x \<and> m x = Some v"
  using assms
  by (auto simp: predict_def Let_def split: if_splits option.splits)

lemma detector_low_fields:
  "is_trained detector_low" "model detector_low = Some decision_low"
  "scaler detector_low = Some scaler_identity" "det_threshold detector_low = 13 / 20"
  by (simp_all add: detector_low_def IsolationForestDetector_load_def model_data_low_def
      IsolationForestDetector_init_def)

lemma vector_exploit_only_in_range:
  "sc_transform scaler_identity (to_vector features_exploit_only) =
     Some (to_vector features_exploit_only)"
  by (simp add: scaler_identity_def transform_in_range_def to_vector_def fl_to_vector_def
      sv_to_vector_def bc_to_vector_def op_to_vector_def features_exploit_only_def
      sv_empty_features_def bc_empty_features_def op_empty_features_def b2f_def)

lemma vector_huge_amount_rejected:
  "sc_transform scaler_identity (to_vector features_huge_amount) = None"
  by (simp add: scaler_identity_def transform_in_range_def to_vector_def fl_to_vector_def
      features_huge_amount_def features_plain_def)

text \<open>
  C9: the score that the detector publishes for a feature record is
  \<open>clip(0.5 - d(x)/2, 0, 1)\<close>, with \<open>x\<close> the standardized feature vector and \<open>d\<close> the
  decision function of the fitted scorer; the anomaly flag holds exactly when the score is at
  least the configured threshold, the confidence is \<open>min(0.5 + |score - threshold|, 1)\<close>,
  and the threshold of a detector built with default arguments is 0.65. A result is
  published exactly when the detector is trained and both the scaler and the scorer accept
  their input; otherwise the call raises.
\<close>

theorem C9_published_score:
  "(is_trained d \<and> model d = Some dec \<and> scaler d = Some sc \<and>
    sc_transform sc (to_vector f) = Some x \<and> dec x = Some v \<longrightarrow>
      (\<exists>r. predict d f = Inr r \<and>
           dr_anomaly_score r = max 0 (min 1 (1 / 2 - v / 2)) \<and>
           (dr_is_anomaly r \<longleftrightarrow> dr_anomaly_score r \<ge> det_threshold d) \<and>
           dr_confidence r = min (1 / 2 + \<bar>dr_anomaly_score r - det_threshold d\<bar>) 1 \<and>
           dr_threshold r = det_threshold d)) \<and>
   (predict d f = Inr r' \<longrightarrow>
      (\<exists>dec' sc' x' v'. is_trained d \<and> model d = Some dec' \<and> scaler d = Some sc' \<and>
           sc_transform sc' (to_vector f) = Some x' \<and> dec' x' = Some v' \<and>
           dr_anomaly_score r' = max 0 (min 1 (1 / 2 - v' / 2))) \<and>
      (dr_is_anomaly r' \<longleftrightarrow> dr_anomaly_score r' \<ge> det_threshold d) \<and>
      dr_confidence r' = min (1 / 2 + \<bar>dr_anomaly_score r' - det_threshold d\<bar>) 1 \<and>
      dr_threshold r' = det_threshold d) \<and>
   det_threshold IsolationForestDetector_init = 65 / 100"
proof (intro conjI impI)
  assume "is_trained d \<and> model d = Some dec \<and> scaler d = Some sc \<and>
          sc_transform sc (to_vector f) = Some x \<and> dec x = Some v"
  then have p: "predict d f =
     Inr \<lparr> dr_anomaly_score = normalize_score v,
           dr_is_anomaly = (normalize_score v \<ge> det_threshold d),
           dr_confidence = calculate_confidence d (normalize_score v),
           dr_feature_contributions = calculate_feature_contributions d x,
           dr_threshold = det_threshold d \<rparr>"
    using predict_trained [of d dec sc f x v] by simp
  show "\<exists>r. predict d f = Inr r \<and>
           dr_anomaly_score r = max 0 (min 1 (1 / 2 - v / 2)) \<and>
           (dr_is_anomaly r \<longleftrightarrow> dr_anomaly_score r \<ge> det_threshold d) \<and>
           dr_confidence r = min (1 / 2 + \<bar>dr_anomaly_score r - det_threshold d\<bar>) 1 \<and>
           dr_threshold r = det_threshold d"
    unfolding p by (simp add: normalize_score_def calculate_confidence_def Let_def)
next
  assume r: "predict d f = Inr r'"
  from predict_returns [OF r] obtain m sc0 x0 v0
    where h: "is_trained d" "model d = Some m" "scaler d = Some sc0"
      "sc_transform sc0 (to_vector f) = Some x0" "m x0 = Some v0"
    by blast
  from predict_trained [OF h] r
  have r': "r' = \<lparr> dr_anomaly_score = normalize_score v0,
           dr_is_anomaly = (normalize_score v0 \<ge> det_threshold d),
           dr_confidence = calculate_confidence d (normalize_score v0),
           dr_feature_contributions = calculate_feature_contributions d x0,
           dr_threshold = det_threshold d \<rparr>"
    by simp
  have "dr_anomaly_score r' = max 0 (min 1 (1 / 2 - v0 / 2))"
    by (simp add: r' normalize_score_def Let_def)
  with h show "\<exists>dec' sc' x' v'. is_trained d \<and> model d = Some dec' \<and> scaler d = Some sc' \<and>
           sc_transform sc' (to_vector f) = Some x' \<and> dec' x' = Some v' \<and>
           dr_anomaly_score r' = max 0 (min 1 (1 / 2 - v' / 2))"
    by blast
  show "dr_is_anomaly r' \<longleftrightarrow> dr_anomaly_score r' \<ge> det_threshold d"
    by (simp add: r')
  show "dr_confidence r' = min (1 / 2 + \<bar>dr_anomaly_score r' - det_threshold d\<bar>) 1"
    by (simp add: r' calculate_confidence_def Let_def)
  show "dr_threshold r' = det_threshold d"
    by (simp add: r')
next
  show "det_threshold IsolationForestDetector_init = 65 / 100"
    by (simp add: IsolationForestDetector_init_def)
qed

theorem C9_published_score_witness:
  "is_trained detector_low \<and> model detector_low = Some decision_low \<and>
   scaler detector_low = Some scaler_identity \<and>
   sc_transform scaler_identity (to_vector features_exploit_only) =
     Some (to_vector features_exploit_only) \<and>
   decision_low (to_vector features_exploit_only) = Some (- (2 / 5)) \<and>
   (\<exists>r. predict detector_low features_exploit_only = Inr r \<and>
        dr_anomaly_score r = 7 / 10 \<and> dr_is_anomaly r \<and> dr_confidence r = 55 / 100) \<and>
   predict detector_low features_huge_amount = Inl ValueError"
proof -
  note f = detector_low_fields
  have v: "decision_low (to_vector features_exploit_only) = Some (- (2 / 5))"
    by (simp add: decision_low_def)
  from C9_published_score [of detector_low decision_low scaler_identity
      features_exploit_only "to_vector features_exploit_only" "- (2 / 5)"]
    f(1,2,3) vector_exploit_only_in_range v
  obtain r where r: "predict detector_low features_exploit_only = Inr r"
    "dr_anomaly_score r = max 0 (min 1 (1 / 2 - (- (2 / 5)) / 2))"
    "dr_is_anomaly r \<longleftrightarrow> dr_anomaly_score r \<ge> det_threshold detector_low"
    "dr_confidence r = min (1 / 2 + \<bar>dr_anomaly_score r - det_threshold detector_low\<bar>) 1"
    by blast
  have sc: "dr_anomaly_score r = 7 / 10"
    using r(2) by simp
  have a: "dr_is_anomaly r" using r(3) sc f(4) by simp
  have c: "dr_confidence r = 55 / 100" using r(4) sc f(4) by simp
  have h: "predict detector_low features_huge_amount = Inl ValueError"
    by (simp add: predict_def f(1,2,3) vector_huge_amount_rejected Let_def)
  from f(1,2,3) vector_exploit_only_in_range v r(1) sc a c h show ?thesis by blast
qed

subsection \<open>Bounds of the protocol adjustment\<close>

text \<open>
  C5: for every input the risk adjustment computed by the protocol filter lies in
  \<open>[-0.5, 0.5]\<close>; the filter applies it as
  \<open>adjusted = clip(raw + adjustment \<cdot> raw, 0, 1)\<close>, so the adjusted score lies in \<open>[0, 1]\<close>
  (for every raw score, in particular for those in \<open>[0, 1]\<close>).
\<close>

theorem C5_adjustment_bounds:
  "- (1 / 2) \<le> calculate_risk_adjustment p op kp ko wb f \<and>
   calculate_risk_adjustment p op kp ko wb f \<le> 1 / 2 \<and>
   - (1 / 2) \<le> risk_adjustment (pfr_context (pf_filter pf f raw to_address input_data)) \<and>
   risk_adjustment (pfr_context (pf_filter pf f raw to_address input_data)) \<le> 1 / 2 \<and>
   adjusted_risk_score (pf_filter pf f raw to_address input_data) =
     max 0 (min 1 (raw + risk_adjustment (pfr_context (pf_filter pf f raw to_address input_data))
                           * raw)) \<and>
   0 \<le> adjusted_risk_score (pf_filter pf f raw to_address input_data) \<and>
   adjusted_risk_score (pf_filter pf f raw to_address input_data) \<le> 1"
proof -
  have adj: "- (1 / 2) \<le> calculate_risk_adjustment p' op' kp' ko' wb' f' \<and>
             calculate_risk_adjustment p' op' kp' ko' wb' f' \<le> 1 / 2" for p' op' kp' ko' wb' f'
    unfolding calculate_risk_adjustment_def Let_def by (simp add: max_def min_def)
  have ctx: "risk_adjustment (get_context pf f to_address input_data) =
       calculate_risk_adjustment (identify_protocol pf to_address)
         (identify_operation pf input_data) (identify_protocol pf to_address \<noteq> P_UNKNOWN)
         (identify_operation pf input_data \<noteq> O_UNKNOWN)
         (fst (check_bounds pf (identify_operation pf input_data) f)) f"
    by (simp add: get_context_def Let_def split: prod.split)
  have c: "pfr_context (pf_filter pf f raw to_address input_data) =
           get_context pf f to_address input_data"
    by (simp add: pf_filter_def Let_def)
  have s: "adjusted_risk_score (pf_filter pf f raw to_address input_data) =
     max 0 (min 1 (raw + risk_adjustment (get_context pf f to_address input_data) * raw))"
    by (simp add: pf_filter_def Let_def)
  show ?thesis
    using adj [of p op kp ko wb f] adj [of "identify_protocol pf to_address"
        "identify_operation pf input_data" "identify_protocol pf to_address \<noteq> P_UNKNOWN"
        "identify_operation pf input_data \<noteq> O_UNKNOWN"
        "fst (check_bounds pf (identify_operation pf input_data) f)" f]
    unfolding c s ctx by simp
qed

theorem C5_adjustment_bounds_witness:
  "risk_adjustment (pfr_context (pf_filter ProtocolFilter_init features_exploit_only (1 / 2)
     (Some uniswap_v2_router) swap_calldata)) = - (2 / 5) \<and>
   adjusted_risk_score (pf_filter ProtocolFilter_init features_exploit_only (1 / 2)
     (Some uniswap_v2_router) swap_calldata) = 3 / 10 \<and>
   0 \<le> adjusted_risk_score (pf_filter ProtocolFilter_init features_exploit_only (1 / 2)
     (Some uniswap_v2_router) swap_calldata)"
proof -
  have p: "identify_protocol ProtocolFilter_init (Some uniswap_v2_router) = UNISWAP_V2"
    by (simp add: identify_protocol_def ProtocolFilter_init_def uniswap_v2_router_def
        PROTOCOL_ADDRESSES_def dict_of_def lower_def char_lower_def)
  have o: "identify_operation ProtocolFilter_init swap_calldata = SWAP"
    by (simp add: identify_operation_def ProtocolFilter_init_def swap_calldata_def
        OPERATION_SELECTORS_def dict_of_def lower_def char_lower_def)
  have b: "check_bounds ProtocolFilter_init SWAP features_exploit_only = (True, [])"
    by (simp add: check_bounds_def ProtocolFilter_init_def features_exploit_only_def
        sv_empty_features_def append_if_def Let_def)
  have fl: "\<not> has_flash_loan (flash_loan features_exploit_only)"
    by (simp add: features_exploit_only_def)
  have a: "risk_adjustment (pfr_context (pf_filter ProtocolFilter_init features_exploit_only
             (1 / 2) (Some uniswap_v2_router) swap_calldata)) = - (2 / 5)"
    by (simp add: pf_filter_def get_context_def p o b fl calculate_risk_adjustment_def Let_def)
  from C5_adjustment_bounds [of UNISWAP_V2 SWAP True True True features_exploit_only
      ProtocolFilter_init "1 / 2" "Some uniswap_v2_router" swap_calldata] a
  show ?thesis by simp
qed

subsection \<open>Evaluation of the examples\<close>

lemma predict_low:
  assumes "sc_transform scaler_identity (to_vector f) = Some (to_vector f)"
  shows "predict detector_low f =
     Inr \<lparr> dr_anomaly_score = 7 / 10, dr_is_anomaly = True, dr_confidence = 11 / 20,
           dr_feature_contributions =
             calculate_feature_contributions detector_low (to_vector f),
           dr_threshold = 13 / 20 \<rparr>"
proof -
  have v: "decision_low (to_vector f) = Some (- (2 / 5))"
    by (simp add: decision_low_def)
  show ?thesis
    by (simp add: predict_trained [OF detector_low_fields(1,2,3) assms v]
        detector_low_fields(4) normalize_score_def calculate_confidence_def Let_def)
qed

lemma vector_plain_in_range:
  "sc_transform scaler_identity (to_vector features_plain) = Some (to_vector features_plain)"
  by (simp add: scaler_identity_def transform_in_range_def to_vector_def fl_to_vector_def
      sv_to_vector_def bc_to_vector_def op_to_vector_def features_plain_def
      sv_empty_features_def bc_empty_features_def op_empty_features_def b2f_def)

lemma vector_all_indicators_in_range:
  "sc_transform scaler_identity (to_vector features_all_indicators) =
     Some (to_vector features_all_indicators)"
  by (simp add: scaler_identity_def transform_in_range_def to_vector_def fl_to_vector_def
      sv_to_vector_def bc_to_vector_def op_to_vector_def features_all_indicators_def
      bc_empty_features_def op_empty_features_def b2f_def)

lemma extract_plain:
  "extract_from_trace internals_trivial trace_plain = Inr features_plain"
  by (simp add: extract_from_trace_def trace_plain_def fl_extract_def sv_extract_def
      op_extract_def Let_def selector_of_def detect_nested_flash_loans_def
      detect_repayment_def detect_repayment_from_logs_def flash_loan_sigs_def
      FLASH_LOAN_SIGNATURES_def features_plain_def)

lemma extract_odd_creation:
  "extract_from_trace internals_trivial trace_odd_creation = Inl ValueError"
  by (simp add: extract_from_trace_def trace_odd_creation_def sv_extract_def op_extract_def
      bc_extract_from_bytecode_def fromhex_rejects_def strip_0x_def hex_digit_def
      ascii_whitespace_def Let_def)

lemma fields_plain:
  "has_flash_loan (flash_loan features_plain) = False"
  "total_borrowed (flash_loan features_plain) = 0"
  "unique_contracts_modified (state_variance features_plain) = 0"
  "total_storage_changes (state_variance features_plain) = 0"
  "max_value_delta (state_variance features_plain) = 0"
  "call_depth (opcode features_plain) = 0"
  by (simp_all add: features_plain_def sv_empty_features_def op_empty_features_def)

lemma trace_plain_fields:
  "tr_tx_hash trace_plain = ''0xc1''"
  "tr_input_data trace_plain = ''0x''"
  "tr_to_address trace_plain = Some ''0x3333333333333333333333333333333333333333''"
  by (simp_all add: trace_plain_def)

lemma heuristic_plain:
  "filter_with_features features_plain =
     \<lparr> hr_result = F_UNKNOWN, hr_confidence = 1 / 2, hr_reasons = [],
       hr_should_analyze = True, hr_risk_indicators = [''new_contract''] \<rparr>"
  by (simp add: features_plain_def filter_with_features_def indicators_before_exploit_def
      Let_def append_if_def sv_empty_features_def bc_empty_features_def
      op_empty_features_def)

lemma explanation_plain:
  "generate_explanation features_plain h
     (Some \<lparr> dr_anomaly_score = 7 / 10, dr_is_anomaly = True, dr_confidence = 11 / 20,
             dr_feature_contributions = c, dr_threshold = 13 / 20 \<rparr>) l =
   [FlaggedByModel (7 / 10)]"
  by (simp add: features_plain_def generate_explanation_def Let_def append_if_def
      sv_empty_features_def op_empty_features_def)

lemma compute_risk_plain:
  "compute_risk
     \<lparr> hr_result = F_UNKNOWN, hr_confidence = 1 / 2, hr_reasons = [],
       hr_should_analyze = True, hr_risk_indicators = [''new_contract''] \<rparr>
     (Some \<lparr> dr_anomaly_score = 7 / 10, dr_is_anomaly = True, dr_confidence = 11 / 20,
             dr_feature_contributions = c, dr_threshold = 13 / 20 \<rparr>) =
   (LOW, 23 / 50, 53 / 100)"
  by (simp add: compute_risk_def Let_def)

lemma engine_fields:
  "feature_aggregator engine_unfiltered = internals_trivial"
  "ml_detector engine_unfiltered = Some detector_low"
  "protocol_filter engine_unfiltered = None"
  "feature_aggregator engine_filtered = internals_trivial"
  "ml_detector engine_filtered = Some detector_low"
  "protocol_filter engine_filtered = Some ProtocolFilter_init"
  "feature_aggregator engine_default = internals_trivial"
  "ml_detector engine_default = None"
  "protocol_filter engine_default = Some ProtocolFilter_init"
  by (simp_all add: engine_unfiltered_def engine_filtered_def engine_default_def
      SignalEngine_init_def detector_low_def)

lemma run_detector_plain:
  "run_detector engine_unfiltered features_plain =
     Inr (Some \<lparr> dr_anomaly_score = 7 / 10, dr_is_anomaly = True, dr_confidence = 11 / 20,
           dr_feature_contributions =
             calculate_feature_contributions detector_low (to_vector features_plain),
           dr_threshold = 13 / 20 \<rparr>)"
  "run_detector engine_filtered features_plain =
     Inr (Some \<lparr> dr_anomaly_score = 7 / 10, dr_is_anomaly = True, dr_confidence = 11 / 20,
           dr_feature_contributions =
             calculate_feature_contributions detector_low (to_vector features_plain),
           dr_threshold = 13 / 20 \<rparr>)"
  by (simp_all add: run_detector_def engine_fields predict_low [OF vector_plain_in_range])

lemma analyze_async_unfiltered:
  "analyze_async engine_unfiltered trace_plain 0 1 =
     Inr (signal_unfiltered,
          engine_unfiltered\<lparr>stats := update_stats LOW 1 (stats engine_unfiltered)\<rparr>)"
  by (simp add: analyze_async_def engine_fields extract_plain run_detector_plain
      heuristic_plain compute_risk_plain explanation_plain RiskSignal_init_def
      signal_unfiltered_def fields_plain trace_plain_fields Let_def)

lemma features_all_indicators_list:
  "hr_risk_indicators (filter_with_features features_all_indicators) =
     [''flash_loan_detected'', ''nested_flash_loans'', ''large_flash_loan'',
      ''flash_loan_with_complex_activity'', ''high_state_variance'',
      ''multiple_large_changes'', ''extreme_value_movement'', ''high_bytecode_similarity'',
      ''new_contract'', ''selfdestruct_opcode'', ''uses_delegatecall'', ''uses_create2'',
      ''deep_call_stack'', ''high_call_count'']"
  by (simp add: filter_with_features_def indicators_before_exploit_def
      features_all_indicators_def Let_def append_if_def bc_empty_features_def
      op_empty_features_def)

lemma compute_risk_within_ten:
  assumes "length (hr_risk_indicators h) \<le> 10"
    and "0 \<le> dr_anomaly_score r" and "dr_anomaly_score r \<le> 1"
  shows "fst (snd (compute_risk h (Some r))) =
           4 / 10 * (of_nat (min (length (hr_risk_indicators h)) 10) / 10) +
           6 / 10 * dr_anomaly_score r"
    and "fst (snd (compute_risk h None)) = of_nat (min (length (hr_risk_indicators h)) 10) / 10"
proof -
  have n: "real (length (hr_risk_indicators h)) \<le> 10" using assms(1) by simp
  have m: "min (length (hr_risk_indicators h)) 10 = length (hr_risk_indicators h)"
    using assms(1) by simp
  show "fst (snd (compute_risk h (Some r))) =
           4 / 10 * (of_nat (min (length (hr_risk_indicators h)) 10) / 10) +
           6 / 10 * dr_anomaly_score r"
    unfolding m using n assms(2,3) by (simp add: compute_risk_def Let_def)
  show "fst (snd (compute_risk h None)) = of_nat (min (length (hr_risk_indicators h)) 10) / 10"
    unfolding m using n by (simp add: compute_risk_def Let_def)
qed

lemma compute_risk_le_one: "fst (snd (compute_risk h ml)) \<le> 1"
  by (simp add: compute_risk_def Let_def)

subsection \<open>Raw score of the fusion\<close>

text \<open>
  C3: with the detector present the raw risk score is
  \<open>0.4 \<cdot> (min(#indicators, 10) / 10) + 0.6 \<cdot> anomaly_score\<close>. The source divides the number
  of indicators by ten without capping it (\<open>compute_risk_within_ten\<close> gives the agreement up
  to ten indicators). On the record below the filter reports 14 indicators and the detector
  a score of 0.7: the source returns 0.98, the formula of the claim gives 0.82.
\<close>

theorem C3_raw_score_uncapped:
  "length (hr_risk_indicators (filter_with_features features_all_indicators)) = 14 \<and>
   \<not> isl (predict detector_low features_all_indicators) \<and>
   dr_anomaly_score (projr (predict detector_low features_all_indicators)) = 7 / 10 \<and>
   fst (snd (compute_risk (filter_with_features features_all_indicators)
               (Some (projr (predict detector_low features_all_indicators))))) = 98 / 100 \<and>
   4 / 10 * (real (min 14 10) / 10) + 6 / 10 * (7 / 10) = 82 / 100"
  by (simp add: features_all_indicators_list predict_low [OF vector_all_indicators_in_range]
      compute_risk_def Let_def)

subsection \<open>The synchronous entry point\<close>

text \<open>
  C2: a call of \<^verbatim>\<open>analyze\<close> returns one fully-formed signal. The source builds the signal
  without the four fields \<^verbatim>\<open>protocol\<close>, \<^verbatim>\<open>operation\<close>, \<^verbatim>\<open>raw_risk_score\<close> and
  \<^verbatim>\<open>risk_adjustment\<close>, which the dataclass requires: every call ends in an exception, for
  the engine built with default arguments in \<^verbatim>\<open>TypeError\<close>, while \<^verbatim>\<open>analyze_async\<close>
  returns on the same input.
\<close>

theorem C2_analyze_raises:
  "isl (analyze eng trace now latency) \<and>
   analyze engine_default trace_plain 0 1 = Inl TypeError \<and>
   \<not> isl (analyze_async engine_default trace_plain 0 1)"
proof (intro conjI)
  show "isl (analyze eng trace now latency)"
    by (simp add: analyze_def RiskSignal_init_def Let_def split: sum.split prod.split)
  show "analyze engine_default trace_plain 0 1 = Inl TypeError"
    by (simp add: analyze_def RiskSignal_init_def run_detector_def engine_fields extract_plain
        Let_def split: prod.split)
  show "\<not> isl (analyze_async engine_default trace_plain 0 1)"
    by (simp add: analyze_async_def RiskSignal_init_def run_detector_def engine_fields
        extract_plain Let_def split: prod.split)
qed

subsection \<open>Final risk level\<close>

text \<open>
  C4, as stated: the level of every emitted signal follows the table on the adjusted score.
  An engine built with \<^verbatim>\<open>enable_protocol_filter=False\<close> keeps the level of the
  pre-adjustment cascade: for the plain call and a detector score of 0.7 it emits a signal
  with score 0.46, for which the table gives MEDIUM, at level LOW.
\<close>

theorem C4_level_table_counterexample:
  "analyze_async engine_unfiltered trace_plain 0 1 =
     Inr (signal_unfiltered,
          engine_unfiltered\<lparr>stats := update_stats LOW 1 (stats engine_unfiltered)\<rparr>) \<and>
   35 / 100 \<le> sig_risk_score signal_unfiltered \<and> sig_risk_score signal_unfiltered < 1 / 2 \<and>
   sig_risk_level signal_unfiltered = LOW \<and> sig_risk_level signal_unfiltered \<noteq> MEDIUM"
  using analyze_async_unfiltered by (simp add: signal_unfiltered_def)

lemma analyze_async_returns:
  assumes "protocol_filter eng = Some pf"
    and "extract_from_trace (feature_aggregator eng) trace = Inr f"
    and "run_detector eng f = Inr ml"
  shows "\<exists>s eng'. analyze_async eng trace now latency = Inr (s, eng') \<and>
           sig_risk_level s =
             (if sig_risk_score s \<ge> 7 / 10 then CRITICAL
              else if sig_risk_score s \<ge> 5 / 10 then HIGH
              else if sig_risk_score s \<ge> 35 / 100 then MEDIUM
              else if sig_risk_score s \<ge> 2 / 10 then LOW
              else SAFE) \<and>
           sig_risk_score s =
             adjusted_risk_score
               (pf_filter pf f (sig_raw_risk_score s) (tr_to_address trace)
                  (tr_input_data trace))"
proof -
  let ?h = "filter_with_features f"
  obtain l0 raw conf where cr: "compute_risk ?h ml = (l0, raw, conf)"
    by (cases "compute_risk ?h ml") auto
  define fr where "fr = pf_filter pf f raw (tr_to_address trace) (tr_input_data trace)"
  define lvl where "lvl = score_to_level (adjusted_risk_score fr) ?h ml"
  define pname where "pname = protocol_value (pc_protocol (pfr_context fr))"
  define oname where "oname = operation_value (pc_operation (pfr_context fr))"
  define st where "st = (if risk_adjustment (pfr_context fr) \<noteq> 0
      then (stats eng)\<lparr>protocol_adjustments := protocol_adjustments (stats eng) + 1\<rparr>
      else stats eng)"
  define s where "s =
     \<lparr> sig_tx_hash = tr_tx_hash trace, sig_timestamp = now, sig_risk_level = lvl,
       sig_risk_score = adjusted_risk_score fr, sig_confidence = conf,
       sig_ml_score = (case ml of Some r \<Rightarrow> dr_anomaly_score r | None \<Rightarrow> 0),
       sig_ml_confidence = (case ml of Some r \<Rightarrow> dr_confidence r | None \<Rightarrow> 0),
       sig_heuristic_result = filter_result_value (hr_result ?h),
       sig_heuristic_confidence = hr_confidence ?h,
       sig_risk_indicators = hr_risk_indicators ?h,
       sig_protocol = pname, sig_operation = oname, sig_raw_risk_score = raw,
       sig_risk_adjustment = risk_adjustment (pfr_context fr),
       sig_has_flash_loan = has_flash_loan (flash_loan f),
       sig_flash_loan_amount = of_int (total_borrowed (flash_loan f)) / 10 ^ 18,
       sig_unique_contracts = unique_contracts_modified (state_variance f),
       sig_transfer_count = total_storage_changes (state_variance f),
       sig_max_value_delta = of_int (max_value_delta (state_variance f)) / 10 ^ 18,
       sig_call_depth = call_depth (opcode f),
       sig_recommended_action = get_recommendation lvl,
       sig_explanation =
         (if pname \<noteq> ''unknown''
          then ProtocolPrefix pname oname # generate_explanation f ?h ml lvl
          else generate_explanation f ?h ml lvl),
       sig_latency_ms = latency, sig_model_version = ''v2.1'' \<rparr>"
  have run: "analyze_async eng trace now latency =
               Inr (s, eng\<lparr>stats := update_stats lvl latency st\<rparr>)"
    by (simp add: analyze_async_def Let_def assms cr RiskSignal_init_def s_def lvl_def
        pname_def oname_def st_def fr_def split del: if_split cong: if_cong)
  have level: "sig_risk_level s =
             (if sig_risk_score s \<ge> 7 / 10 then CRITICAL
              else if sig_risk_score s \<ge> 5 / 10 then HIGH
              else if sig_risk_score s \<ge> 35 / 100 then MEDIUM
              else if sig_risk_score s \<ge> 2 / 10 then LOW
              else SAFE)"
    by (simp add: s_def lvl_def score_to_level_def)
  have score: "sig_risk_score s =
             adjusted_risk_score (pf_filter pf f (sig_raw_risk_score s)
               (tr_to_address trace) (tr_input_data trace))"
    by (simp add: s_def fr_def)
  from run level score show ?thesis by blast
qed

lemma analyze_async_returned:
  assumes "analyze_async eng trace now latency = Inr p"
  shows "\<exists>f ml. extract_from_trace (feature_aggregator eng) trace = Inr f \<and>
                run_detector eng f = Inr ml"
proof (cases "extract_from_trace (feature_aggregator eng) trace")
  case (Inl e)
  with assms show ?thesis by (simp add: analyze_async_def)
next
  case (Inr f)
  show ?thesis
  proof (cases "run_detector eng f")
    case (Inl e)
    with Inr assms show ?thesis by (simp add: analyze_async_def Let_def)
  next
    case r: (Inr ml)
    with Inr show ?thesis by simp
  qed
qed

lemma analyze_async_raises:
  "extract_from_trace (feature_aggregator eng) trace = Inl e \<Longrightarrow>
     analyze_async eng trace now latency = Inl e"
  "extract_from_trace (feature_aggregator eng) trace = Inr f \<Longrightarrow> run_detector eng f = Inl e \<Longrightarrow>
     analyze_async eng trace now latency = Inl e"
  by (simp_all add: analyze_async_def Let_def)

text \<open>
  C4, amended: when the protocol filter is enabled (the default), every signal that
  \<^verbatim>\<open>analyze_async\<close> returns carries the adjusted score of the protocol filter and a level
  re-derived from that score alone: at least 0.70 CRITICAL, at least 0.50 HIGH, at least
  0.35 MEDIUM, at least 0.20 LOW, else SAFE. A signal is returned exactly when the feature
  extraction and the detector return; an exception of either (a \<^verbatim>\<open>ValueError\<close> of the
  bytecode extractor on the calldata of a contract creation, of the scaler on a vector it
  rejects) leaves \<^verbatim>\<open>analyze_async\<close> unhandled and no signal is emitted.
\<close>

theorem C4_level_from_adjusted_score:
  assumes "protocol_filter eng = Some pf"
  shows "(analyze_async eng trace now latency = Inr (s, eng') \<longrightarrow>
            (\<exists>f ml. extract_from_trace (feature_aggregator eng) trace = Inr f \<and>
               run_detector eng f = Inr ml \<and>
               sig_risk_level s =
                 (if sig_risk_score s \<ge> 7 / 10 then CRITICAL
                  else if sig_risk_score s \<ge> 5 / 10 then HIGH
                  else if sig_risk_score s \<ge> 35 / 100 then MEDIUM
                  else if sig_risk_score s \<ge> 2 / 10 then LOW
                  else SAFE) \<and>
               sig_risk_score s =
                 adjusted_risk_score
                   (pf_filter pf f (sig_raw_risk_score s) (tr_to_address trace)
                      (tr_input_data trace)))) \<and>
         (\<forall>f ml. extract_from_trace (feature_aggregator eng) trace = Inr f \<and>
             run_detector eng f = Inr ml \<longrightarrow>
               (\<exists>s0 eng0. analyze_async eng trace now latency = Inr (s0, eng0))) \<and>
         (\<forall>e. extract_from_trace (feature_aggregator eng) trace = Inl e \<longrightarrow>
               analyze_async eng trace now latency = Inl e) \<and>
         (\<forall>f e. extract_from_trace (feature_aggregator eng) trace = Inr f \<and>
             run_detector eng f = Inl e \<longrightarrow>
               analyze_async eng trace now latency = Inl e)"
proof (intro conjI impI allI)
  assume r: "analyze_async eng trace now latency = Inr (s, eng')"
  from analyze_async_returned [OF r] obtain f ml
    where f: "extract_from_trace (feature_aggregator eng) trace = Inr f"
      and ml: "run_detector eng f = Inr ml"
    by blast
  from analyze_async_returns [OF assms f ml, of now latency] r
  have "sig_risk_level s =
          (if sig_risk_score s \<ge> 7 / 10 then CRITICAL
           else if sig_risk_score s \<ge> 5 / 10 then HIGH
           else if sig_risk_score s \<ge> 35 / 100 then MEDIUM
           else if sig_risk_score s \<ge> 2 / 10 then LOW
           else SAFE) \<and>
        sig_risk_score s =
          adjusted_risk_score
            (pf_filter pf f (sig_raw_risk_score s) (tr_to_address trace)
               (tr_input_data trace))"
    by auto
  with f ml show "\<exists>f ml. extract_from_trace (feature_aggregator eng) trace = Inr f \<and>
               run_detector eng f = Inr ml \<and>
               sig_risk_level s =
                 (if sig_risk_score s \<ge> 7 / 10 then CRITICAL
                  else if sig_risk_score s \<ge> 5 / 10 then HIGH
                  else if sig_risk_score s \<ge> 35 / 100 then MEDIUM
                  else if sig_risk_score s \<ge> 2 / 10 then LOW
                  else SAFE) \<and>
               sig_risk_score s =
                 adjusted_risk_score
                   (pf_filter pf f (sig_raw_risk_score s) (tr_to_address trace)
                      (tr_input_data trace))"
    by blast
next
  fix f ml
  assume "extract_from_trace (feature_aggregator eng) trace = Inr f \<and>
          run_detector eng f = Inr ml"
  then have f: "extract_from_trace (feature_aggregator eng) trace = Inr f"
    and ml: "run_detector eng f = Inr ml"
    by simp_all
  from analyze_async_returns [OF assms f ml, of now latency]
  show "\<exists>s0 eng0. analyze_async eng trace now latency = Inr (s0, eng0)"
    by blast
next
  fix e
  assume "extract_from_trace (feature_aggregator eng) trace = Inl e"
  then show "analyze_async eng trace now latency = Inl e"
    by (rule analyze_async_raises(1))
next
  fix f e
  assume "extract_from_trace (feature_aggregator eng) trace = Inr f \<and>
          run_detector eng f = Inl e"
  then show "analyze_async eng trace now latency = Inl e"
    using analyze_async_raises(2) by blast
qed

lemma analyze_async_filtered:
  "analyze_async engine_filtered trace_plain 0 1 =
     Inr (signal_filtered,
          engine_filtered\<lparr>stats := update_stats MEDIUM 1 (stats engine_filtered)\<rparr>)"
proof -
  have p: "identify_protocol ProtocolFilter_init
             (Some ''0x3333333333333333333333333333333333333333'') = P_UNKNOWN"
    by (simp add: identify_protocol_def ProtocolFilter_init_def PROTOCOL_ADDRESSES_def
        dict_of_def lower_def char_lower_def)
  have o: "identify_operation ProtocolFilter_init ''0x'' = O_UNKNOWN"
    by (simp add: identify_operation_def)
  have c: "pfr_context (pf_filter ProtocolFilter_init features_plain (23 / 50)
             (Some ''0x3333333333333333333333333333333333333333'') ''0x'') =
           \<lparr> pc_protocol = P_UNKNOWN, pc_operation = O_UNKNOWN, is_known_protocol = False,
             is_known_operation = False, within_bounds = True, bound_violations = [],
             risk_adjustment = 0 \<rparr>"
    by (simp add: pf_filter_def get_context_def p o check_bounds_def
        calculate_risk_adjustment_def fields_plain Let_def)
  have a: "adjusted_risk_score (pf_filter ProtocolFilter_init features_plain (23 / 50)
             (Some ''0x3333333333333333333333333333333333333333'') ''0x'') = 23 / 50"
    using c by (simp add: pf_filter_def Let_def)
  show ?thesis
    by (simp add: analyze_async_def engine_fields extract_plain run_detector_plain
        heuristic_plain compute_risk_plain explanation_plain RiskSignal_init_def
        signal_filtered_def signal_unfiltered_def fields_plain trace_plain_fields c a
        score_to_level_def Let_def)
qed

theorem C4_level_from_adjusted_score_witness:
  "protocol_filter engine_filtered = Some ProtocolFilter_init \<and>
   extract_from_trace (feature_aggregator engine_filtered) trace_plain = Inr features_plain \<and>
   \<not> isl (run_detector engine_filtered features_plain) \<and>
   analyze_async engine_filtered trace_plain 0 1 =
     Inr (signal_filtered,
          engine_filtered\<lparr>stats := update_stats MEDIUM 1 (stats engine_filtered)\<rparr>) \<and>
   sig_risk_score signal_filtered = 46 / 100 \<and> sig_risk_level signal_filtered = MEDIUM \<and>
   extract_from_trace (feature_aggregator engine_filtered) trace_odd_creation =
     Inl ValueError \<and>
   analyze_async engine_filtered trace_odd_creation 0 1 = Inl ValueError"
proof -
  have h1: "protocol_filter engine_filtered = Some ProtocolFilter_init"
    by (rule engine_fields)
  have x: "extract_from_trace (feature_aggregator engine_filtered) trace_plain =
             Inr features_plain"
    by (simp add: engine_fields extract_plain)
  have d: "\<not> isl (run_detector engine_filtered features_plain)"
    by (simp add: run_detector_plain)
  have o: "extract_from_trace (feature_aggregator engine_filtered) trace_odd_creation =
             Inl ValueError"
    by (simp add: engine_fields extract_odd_creation)
  note inst = C4_level_from_adjusted_score [OF h1, of trace_plain 0 1 signal_filtered
      "engine_filtered\<lparr>stats := update_stats MEDIUM 1 (stats engine_filtered)\<rparr>"]
  note inst_odd = C4_level_from_adjusted_score [OF h1, of trace_odd_creation 0 1]
  from inst analyze_async_filtered
  have "sig_risk_level signal_filtered =
          (if sig_risk_score signal_filtered \<ge> 7 / 10 then CRITICAL
           else if sig_risk_score signal_filtered \<ge> 5 / 10 then HIGH
           else if sig_risk_score signal_filtered \<ge> 35 / 100 then MEDIUM
           else if sig_risk_score signal_filtered \<ge> 2 / 10 then LOW
           else SAFE)"
    by blast
  moreover have sc: "sig_risk_score signal_filtered = 46 / 100"
    by (simp add: signal_filtered_def signal_unfiltered_def)
  ultimately have l: "sig_risk_level signal_filtered = MEDIUM"
    by simp
  from inst_odd o have r: "analyze_async engine_filtered trace_odd_creation 0 1 = Inl ValueError"
    by blast
  from h1 x d analyze_async_filtered sc l o r show ?thesis
    by blast
qed

end
